theory Spec2Isabelle
  imports Main
begin

section \<open>Strings and values as Python has them\<close>

text \<open>
  A string is a \<open>char list\<close>: the UTF-8 bytes of the Python text. Concatenation, the
  prefix test and the substring test give on the bytes what Python gives on the code
  points. \<open>py_in sub s\<close> is \<^verbatim>\<open>sub in s\<close>, \<open>startswith s p\<close> is \<^verbatim>\<open>s.startswith(p)\<close> and
  \<open>py_join sep xs\<close> is \<^verbatim>\<open>sep.join(xs)\<close>.

  \<^verbatim>\<open>str.upper()\<close> is Unicode case mapping, which this theory does not define: it is a
  function of the runtime, kept in the world below (\<open>str_upper\<close>). What is defined here is
  its restriction to ASCII text: \<open>ascii_upper\<close> moves the letters \<^verbatim>\<open>a\<close>..\<^verbatim>\<open>z\<close> to
  \<^verbatim>\<open>A\<close>..\<^verbatim>\<open>Z\<close> and leaves every other character, and \<open>python_upper up\<close> says that \<open>up\<close>
  does on ASCII text what \<^verbatim>\<open>str.upper()\<close> does there.
\<close>

definition upper_char :: "char \<Rightarrow> char" where
  "upper_char c =
     (if (97::nat) \<le> of_char c \<and> of_char c \<le> (122::nat)
      then char_of (of_char c - (32::nat)) else c)"

definition ascii_upper :: "string \<Rightarrow> string" where
  "ascii_upper s = map upper_char s"

definition is_ascii :: "string \<Rightarrow> bool" where
  "is_ascii s = list_all (\<lambda>c. of_char c < (128::nat)) s"

definition python_upper :: "(string \<Rightarrow> string) \<Rightarrow> bool" where
  "python_upper up = (\<forall>s. is_ascii s \<longrightarrow> up s = ascii_upper s)"

definition startswith :: "string \<Rightarrow> string \<Rightarrow> bool" where
  "startswith s p = (take (length p) s = p)"

fun py_in :: "string \<Rightarrow> string \<Rightarrow> bool" where
  "py_in sub [] = (sub = [])"
| "py_in sub (c # cs) = (startswith (c # cs) sub \<or> py_in sub cs)"

fun py_join :: "string \<Rightarrow> string list \<Rightarrow> string" where
  "py_join sep [] = []"
| "py_join sep [x] = x"
| "py_join sep (x # y # ys) = x @ sep @ py_join sep (y # ys)"

text \<open>
  A value that comes out of a parsed JSON document, as far as the code looks at it: a
  string, \<^verbatim>\<open>None\<close>, a boolean, or anything else (number, list, dict), kept as the text
  \<^verbatim>\<open>str()\<close> gives for it. \<open>py_str\<close> is the text an f-string prints. A Python variable
  that the code annotates \<^verbatim>\<open>str\<close> but fills from a JSON body holds such a value.
\<close>

datatype jval = JNull | JBool bool | JStr string | JOther string

fun py_str :: "jval \<Rightarrow> string" where
  "py_str JNull = ''None''"
| "py_str (JBool b) = (if b then ''True'' else ''False'')"
| "py_str (JStr s) = s"
| "py_str (JOther s) = s"

section \<open>Persisted rows (incident\_logger.py, table definitions)\<close>

text \<open>
  One record per table. The tables are created by \<^verbatim>\<open>setup_database\<close> with every column
  but \<^verbatim>\<open>id\<close> and \<^verbatim>\<open>timestamp\<close> nullable, so a column that the code fills from a variable
  is a \<open>cell\<close>: \<open>None\<close> is SQL \<^verbatim>\<open>NULL\<close>. Columns that the code only ever fills with a
  string literal are strings. The \<^verbatim>\<open>timestamp\<close> columns of \<^verbatim>\<open>incidents\<close>, \<^verbatim>\<open>requests\<close>
  and \<^verbatim>\<open>ttps\<close> are filled from the wall clock and read by no function modelled here;
  they are left out.
\<close>

type_synonym cell = "string option"

record incident =
  inc_id :: nat
  inc_ip :: cell
  inc_payload :: cell
  rule_triggered :: cell
  inc_status :: cell

record request_row =
  req_id :: nat
  req_status :: string
  client_ip :: cell

record ttp_row =
  ttp_id :: nat
  incident_id :: nat
  technique_id :: string
  technique_name :: string
  description :: string

record suricata_row =
  sur_id :: nat
  sur_timestamp :: nat
  sur_source :: cell
  signature :: string
  category :: string
  severity :: int

section \<open>The world: database, log, outbound calls\<close>

text \<open>
  Exceptions are values. \<open>DatabaseError\<close> stands for whatever the database or its driver
  raises, \<open>RuleEvalError\<close> for whatever a rule predicate raises, \<open>HTTPException c\<close> for
  FastAPI's exception with status code \<open>c\<close>, \<open>RuntimeError\<close> for the one raised when
  \<^verbatim>\<open>DATABASE_URL\<close> is not set; \<open>HTTPStatusError\<close> and \<open>JSONDecodeError\<close> are the
  exceptions of \<^verbatim>\<open>response.raise_for_status()\<close> and \<^verbatim>\<open>response.json()\<close>, and
  \<open>AttributeError\<close> is raised by a method call on a value that has no such method.
\<close>

datatype py_exn =
    DatabaseError
  | RuleEvalError
  | HTTPStatusError
  | JSONDecodeError
  | AttributeError
  | HTTPException nat
  | RuntimeError

datatype level = INFO | WARNING | ERROR

text \<open>
  The statements the code builds, with the Python values it puts into them. A value for
  a text column arrives as the variable holds it.
\<close>

datatype stmt =
    InsertIncident jval jval jval
  | InsertTTP nat string string string
  | InsertRequest string jval
  | InsertSuricata nat jval string string int
  | UpdateHandled nat

text \<open>
  The world holds the four tables with their \<^verbatim>\<open>SERIAL\<close> counters, the statements that
  reached the database so far (\<open>executed\<close>, whether they failed or not), the lines
  written with \<^verbatim>\<open>logging\<close> (level and fixed text of the message), the bodies posted to
  the analysis service (\<open>rag_posts\<close>, url and payload), and the runtime's
  \<^verbatim>\<open>str.upper()\<close> (\<open>str_upper\<close>, which no function changes).
  \<open>db_faults\<close> is the environment's schedule for the database: its head says whether the
  next statement that reaches the database raises; an exhausted schedule means that the
  database raises on nothing.
\<close>

record world =
  incidents :: "incident list"
  requests :: "request_row list"
  ttps :: "ttp_row list"
  suricata_logs :: "suricata_row list"
  incident_seq :: nat
  request_seq :: nat
  ttp_seq :: nat
  suricata_seq :: nat
  db_faults :: "bool list"
  executed :: "stmt list"
  logs :: "(level \<times> string) list"
  rag_posts :: "(string \<times> string) list"
  str_upper :: "string \<Rightarrow> string"

definition logging :: "level \<Rightarrow> string \<Rightarrow> world \<Rightarrow> world" where
  "logging lvl msg w = w\<lparr>logs := logs w @ [(lvl, msg)]\<rparr>"

text \<open>
  What the driver makes of a Python value bound for a text column: a string is stored,
  \<^verbatim>\<open>None\<close> is stored as \<^verbatim>\<open>NULL\<close>, and any other value is refused (asyncpg, the driver
  the \<^verbatim>\<open>databases\<close> library uses for PostgreSQL, raises on it).
\<close>

fun to_cell :: "jval \<Rightarrow> cell option" where
  "to_cell (JStr s) = Some (Some s)"
| "to_cell JNull = Some None"
| "to_cell (JBool b) = None"
| "to_cell (JOther s) = None"

text \<open>
  A statement that the database runs; \<open>None\<close>: the driver refuses one of its values.
  The incident insert names no value for \<^verbatim>\<open>status\<close>: the \<^verbatim>\<open>databases\<close> library does not
  apply the column's Python-side default \<^verbatim>\<open>"open"\<close>, and the table has no default of its
  own, so the status of a new incident is \<^verbatim>\<open>NULL\<close>.
\<close>

fun run_stmt :: "stmt \<Rightarrow> world \<Rightarrow> (nat \<times> world) option" where
  "run_stmt (InsertIncident ip payload rule) w =
     (case (to_cell ip, to_cell payload, to_cell rule) of
        (Some c_ip, Some c_payload, Some c_rule) \<Rightarrow>
          (let i = Suc (incident_seq w) in
           Some (i, w\<lparr>incidents := incidents w @
                        [\<lparr>inc_id = i, inc_ip = c_ip, inc_payload = c_payload,
                          rule_triggered = c_rule, inc_status = None\<rparr>],
                      incident_seq := i\<rparr>))
      | _ \<Rightarrow> None)"
| "run_stmt (InsertTTP inc tid tname descr) w =
     (let i = Suc (ttp_seq w) in
      Some (i, w\<lparr>ttps := ttps w @
                   [\<lparr>ttp_id = i, incident_id = inc, technique_id = tid,
                     technique_name = tname, description = descr\<rparr>],
                 ttp_seq := i\<rparr>))"
| "run_stmt (InsertRequest status ip) w =
     (case to_cell ip of
        Some c_ip \<Rightarrow>
          (let i = Suc (request_seq w) in
           Some (i, w\<lparr>requests := requests w @
                        [\<lparr>req_id = i, req_status = status, client_ip = c_ip\<rparr>],
                      request_seq := i\<rparr>))
      | None \<Rightarrow> None)"
| "run_stmt (InsertSuricata ts src sig cat sev) w =
     (case to_cell src of
        Some c_src \<Rightarrow>
          (let i = Suc (suricata_seq w) in
           Some (i, w\<lparr>suricata_logs := suricata_logs w @
                        [\<lparr>sur_id = i, sur_timestamp = ts, sur_source = c_src,
                          signature = sig, category = cat, severity = sev\<rparr>],
                      suricata_seq := i\<rparr>))
      | None \<Rightarrow> None)"
| "run_stmt (UpdateHandled i) w =
     Some (0, w\<lparr>incidents :=
                  map (\<lambda>r. if inc_id r = i then r\<lparr>inc_status := Some ''handled''\<rparr> else r)
                      (incidents w)\<rparr>)"

text \<open>
  A statement reaches the database: it is noted, one entry of the fault schedule is
  used up, and the statement either raises or runs.
\<close>

definition execute :: "stmt \<Rightarrow> world \<Rightarrow> (py_exn + nat) \<times> world" where
  "execute st w =
     (let w1 = w\<lparr>executed := executed w @ [st], db_faults := tl (db_faults w)\<rparr> in
      case db_faults w of
        True # _ \<Rightarrow> (Inl DatabaseError, w1)
      | _ \<Rightarrow> (case run_stmt st w1 of
                None \<Rightarrow> (Inl DatabaseError, w1)
              | Some (i, w2) \<Rightarrow> (Inr i, w2)))"

text \<open>
  \<^verbatim>\<open>await database.execute(query, values)\<close> of the \<^verbatim>\<open>databases\<close> library. Before
  anything is sent, the library builds the query: a query that is not a plain string
  and comes with a non-empty \<^verbatim>\<open>values\<close> dict gets \<^verbatim>\<open>query.values(**values)\<close>. An
  \<^verbatim>\<open>insert()\<close> expression has that method; the \<^verbatim>\<open>TextClause\<close> that \<^verbatim>\<open>text(...)\<close> returns
  has not, and the call raises \<^verbatim>\<open>AttributeError\<close>. The code passes its inserts without
  \<^verbatim>\<open>values\<close> (\<open>with_values = False\<close>) and the \<^verbatim>\<open>UPDATE\<close> of \<^verbatim>\<open>mark_incident_handled\<close>
  as \<^verbatim>\<open>text(...)\<close> with \<^verbatim>\<open>values={"id": incident_id}\<close>.
\<close>

datatype query = InsertExpr stmt | TextClause stmt

definition build_query :: "query \<Rightarrow> bool \<Rightarrow> py_exn + stmt" where
  "build_query q with_values =
     (case q of
        InsertExpr st \<Rightarrow> Inr st
      | TextClause st \<Rightarrow> if with_values then Inl AttributeError else Inr st)"

definition database_execute :: "query \<Rightarrow> bool \<Rightarrow> world \<Rightarrow> (py_exn + nat) \<times> world" where
  "database_execute q with_values w =
     (case build_query q with_values of
        Inl e \<Rightarrow> (Inl e, w)
      | Inr st \<Rightarrow> execute st w)"

section \<open>Recorder (incident\_logger.py)\<close>

definition log_request :: "string \<Rightarrow> jval \<Rightarrow> world \<Rightarrow> world" where
  "log_request status ip w =
     (case database_execute (InsertExpr (InsertRequest status ip)) False w of
        (Inr _, w1) \<Rightarrow> logging INFO ''Request logged'' w1
      | (Inl _, w1) \<Rightarrow> logging ERROR ''Failed to log request'' w1)"

definition log_ttp :: "nat \<Rightarrow> string \<Rightarrow> string \<Rightarrow> string \<Rightarrow> world \<Rightarrow> world" where
  "log_ttp inc tid tname descr w =
     (case database_execute (InsertExpr (InsertTTP inc tid tname descr)) False w of
        (Inr _, w1) \<Rightarrow> logging INFO ''Logged TTP'' w1
      | (Inl _, w1) \<Rightarrow> logging ERROR ''Failed to log TTP'' w1)"

text \<open>
  \<^verbatim>\<open>log_incident\<close>: one \<^verbatim>\<open>try\<close> around the whole body. The parameters are annotated
  \<^verbatim>\<open>str\<close>, which Python does not check: the middleware passes strings, the intake
  endpoint passes what the JSON body holds. \<^verbatim>\<open>log_ttp\<close> and \<^verbatim>\<open>log_request\<close> catch their
  own exceptions, so the \<^verbatim>\<open>except\<close> is reached from the incident insert, or from
  \<^verbatim>\<open>rule.upper()\<close> when \<^verbatim>\<open>rule\<close> is not a string (the incident is then already
  inserted); what follows is skipped.
\<close>

definition log_incident :: "jval \<Rightarrow> jval \<Rightarrow> jval \<Rightarrow> world \<Rightarrow> world" where
  "log_incident ip payload rule w =
     (case database_execute (InsertExpr (InsertIncident ip payload rule)) False w of
        (Inl _, w1) \<Rightarrow> logging ERROR ''Failed to log incident'' w1
      | (Inr inc, w1) \<Rightarrow>
          (let w2 = logging WARNING ''Incident logged'' w1 in
           case rule of
             JStr name \<Rightarrow>
               (let w3 = (if py_in ''SQL'' (str_upper w name)
                          then log_ttp inc ''T1190'' ''Exploit Public-Facing Application''
                                 ''SQL Injection attempt detected.'' w2
                          else if py_in ''XSS'' (str_upper w name)
                          then log_ttp inc ''T1059.007'' ''Cross-Site Scripting (XSS)''
                                 ''Potential XSS attack detected.'' w2
                          else w2)
                in log_request ''error'' ip w3)
           | _ \<Rightarrow> logging ERROR ''Failed to log incident'' w2))"

definition log_suricata_alert ::
  "nat \<Rightarrow> jval \<Rightarrow> string \<Rightarrow> string \<Rightarrow> int \<Rightarrow> world \<Rightarrow> world" where
  "log_suricata_alert ts src sig cat sev w =
     (case database_execute (InsertExpr (InsertSuricata ts src sig cat sev)) False w of
        (Inr _, w1) \<Rightarrow> logging INFO ''Suricata alert logged'' w1
      | (Inl _, w1) \<Rightarrow> logging ERROR ''Failed to log Suricata alert'' w1)"

definition mark_incident_handled :: "nat \<Rightarrow> world \<Rightarrow> bool \<times> world" where
  "mark_incident_handled i w =
     (case database_execute (TextClause (UpdateHandled i)) True w of
        (Inr _, w1) \<Rightarrow> (True, logging INFO ''Incident marked as handled'' w1)
      | (Inl _, w1) \<Rightarrow> (False, logging ERROR ''Failed to mark incident handled'' w1))"

section \<open>Configuration (main.py, incident\_logger.py, module level)\<close>

text \<open>
  \<^verbatim>\<open>OWASP_RULES\<close> is a dict from rule name to a value that the middleware calls when it
  is callable; the module that fills it is not among the source files, so the table
  is a parameter: an association list in the dict's iteration order. A predicate
  returns a truth value or raises.
\<close>

datatype rule_fn = NotCallable | Callable "string \<Rightarrow> py_exn + bool"

record config =
  OWASP_RULES :: "(string \<times> rule_fn) list"
  REGEX_RULES :: "(string \<times> (string \<Rightarrow> bool)) list"
  RAG_SERVICE_URL :: string
  ADMIN_KEY :: string

definition getenv :: "(string \<rightharpoonup> string) \<Rightarrow> string \<Rightarrow> string \<Rightarrow> string" where
  "getenv env k d = (case env k of None \<Rightarrow> d | Some v \<Rightarrow> v)"

text \<open>
  What the two modules read from the environment when they are imported:
  \<^verbatim>\<open>DATABASE_URL\<close> (absent or empty raises), \<^verbatim>\<open>ADMIN_KEY\<close> and \<^verbatim>\<open>RAG_SERVICE_URL\<close>, the
  last two with the defaults written in the source.
\<close>

definition load_config ::
  "(string \<rightharpoonup> string) \<Rightarrow> (string \<times> rule_fn) list \<Rightarrow> (string \<times> (string \<Rightarrow> bool)) list
     \<Rightarrow> py_exn + config" where
  "load_config env owasp regex =
     (case env ''DATABASE_URL'' of
        None \<Rightarrow> Inl RuntimeError
      | Some url \<Rightarrow>
          if url = [] then Inl RuntimeError
          else Inr \<lparr>OWASP_RULES = owasp, REGEX_RULES = regex,
                    RAG_SERVICE_URL =
                      getenv env ''RAG_SERVICE_URL'' ''http://rag-service:8000/analyze-payload'',
                    ADMIN_KEY = getenv env ''ADMIN_KEY'' ''supersecretadminkey''\<rparr>)"

section \<open>Requests, responses, the analysis service\<close>

text \<open>
  Of a request the middleware reads the path, the query string, the body (\<open>None\<close>:
  reading or decoding it raised, and the payload text is empty) and the client's host
  (\<open>None\<close>: no client, reported as \<^verbatim>\<open>"unknown"\<close>).
\<close>

record request =
  path :: string
  query :: string
  body :: "string option"
  client_host :: "string option"

text \<open>
  A response is a \<^verbatim>\<open>JSONResponse\<close> with its status code and content, or whatever
  \<^verbatim>\<open>call_next(request)\<close> returns: the request went on to the protected application.
\<close>

datatype response = JSONResponse nat "(string \<times> string) list" | CallNext

text \<open>What \<^verbatim>\<open>.json()\<close> returns, of a response or of a request: a dict, or some other JSON value.\<close>

datatype json = NotDict | Dict "string \<rightharpoonup> jval"

text \<open>
  The outcome of \<^verbatim>\<open>client.post\<close>: \<^verbatim>\<open>httpx.RequestError\<close> (timeout, connection
  refused), or a response with a status code and a body (\<open>None\<close>: the body is not JSON,
  \<^verbatim>\<open>response.json()\<close> raises). \<^verbatim>\<open>raise_for_status()\<close> raises \<^verbatim>\<open>httpx.HTTPStatusError\<close>,
  which is not a \<^verbatim>\<open>RequestError\<close>, unless the status is 2xx.
\<close>

datatype http_reply = RequestError | Response nat "json option"

definition is_success :: "nat \<Rightarrow> bool" where
  "is_success status = (200 \<le> status \<and> status \<le> 299)"

section \<open>Payload inspection middleware (main.py)\<close>

definition bypassed :: "string \<Rightarrow> bool" where
  "bypassed p = (startswith p ''/api/'' \<or> startswith p ''/admin'' \<or> startswith p ''/health'')"

definition client_ip_of :: "request \<Rightarrow> string" where
  "client_ip_of req = (case client_host req of None \<Rightarrow> ''unknown'' | Some h \<Rightarrow> h)"

definition payload_of :: "request \<Rightarrow> string" where
  "payload_of req = (case body req of None \<Rightarrow> [] | Some t \<Rightarrow> t) @ query req"

text \<open>
  The loop over \<^verbatim>\<open>OWASP_RULES.items()\<close>. \<open>Some r\<close>: the loop returned the response
  \<open>r\<close>; \<open>None\<close>: it ran to its end. A predicate that raises is logged and the loop goes
  on; \<^verbatim>\<open>log_incident\<close> raises nothing.
\<close>

fun owasp_loop ::
  "(string \<times> rule_fn) list \<Rightarrow> string \<Rightarrow> string \<Rightarrow> world \<Rightarrow> response option \<times> world" where
  "owasp_loop [] payload ip w = (None, w)"
| "owasp_loop ((rule_name, rule_fn) # rest) payload ip w =
     (case rule_fn of
        NotCallable \<Rightarrow> owasp_loop rest payload ip w
      | Callable f \<Rightarrow>
          (case f payload of
             Inl e \<Rightarrow> owasp_loop rest payload ip (logging ERROR ''Error evaluating rule'' w)
           | Inr False \<Rightarrow> owasp_loop rest payload ip w
           | Inr True \<Rightarrow>
               (Some (JSONResponse 403 [(''detail'', ''Blocked by OWASP rule: '' @ rule_name)]),
                log_incident (JStr ip) (JStr payload) (JStr rule_name)
                  (logging WARNING ''OWASP rule triggered'' w))))"

text \<open>
  Modelled from the spec: \<^verbatim>\<open>check_regex_rules\<close> of the module \<^verbatim>\<open>regex_rules\<close>, which is
  not among the source files. The spec (4.2): a mapping from rule name to a compiled
  pattern, matched against the combined payload text; the component returns all matching
  rule names, and no match yields an empty collection. A pattern is taken as the
  predicate "matches this text", the mapping as an association list in its order.
\<close>

definition check_regex_rules :: "(string \<times> (string \<Rightarrow> bool)) list \<Rightarrow> string \<Rightarrow> string list" where
  "check_regex_rules rules payload = map fst (filter (\<lambda>(name, pat). pat payload) rules)"

text \<open>\<^verbatim>\<open>for r in triggered: await log_incident(client_ip, payload, r)\<close>\<close>

definition log_incidents :: "string \<Rightarrow> string \<Rightarrow> string list \<Rightarrow> world \<Rightarrow> world" where
  "log_incidents ip payload triggered w =
     fold (\<lambda>r. log_incident (JStr ip) (JStr payload) (JStr r)) triggered w"

text \<open>\<^verbatim>\<open>rag_data.get(k, d)\<close>\<close>

definition dict_get :: "('k \<rightharpoonup> 'v) \<Rightarrow> 'k \<Rightarrow> 'v \<Rightarrow> 'v" where
  "dict_get m k d = (case m k of None \<Rightarrow> d | Some v \<Rightarrow> v)"

text \<open>The last lines of the middleware: the request is safe.\<close>

definition safe_request :: "string \<Rightarrow> world \<Rightarrow> (py_exn + response) \<times> world" where
  "safe_request ip w = (Inr CallNext, log_request ''success'' (JStr ip) w)"

text \<open>
  The block under \<^verbatim>\<open>if RAG_SERVICE_URL:\<close>, entered with a non-empty location. Only
  \<^verbatim>\<open>httpx.RequestError\<close> is caught; every other exception of the block leaves the
  middleware.
\<close>

definition rag_stage ::
  "string \<Rightarrow> (string \<Rightarrow> string \<Rightarrow> http_reply) \<Rightarrow> string \<Rightarrow> string \<Rightarrow> world
     \<Rightarrow> (py_exn + response) \<times> world" where
  "rag_stage url post payload ip w =
     (let w1 = logging INFO ''Payload is unknown. Forwarding to RAG service for analysis.'' w;
          w2 = w1\<lparr>rag_posts := rag_posts w1 @ [(url, payload)]\<rparr>
      in case post url payload of
           RequestError \<Rightarrow>
             (Inr (JSONResponse 503
                     [(''detail'', ''Service Unavailable: Analysis service is down.'')]),
              logging ERROR ''Could not connect to RAG service'' w2)
         | Response status parsed \<Rightarrow>
             if \<not> is_success status then (Inl HTTPStatusError, w2)
             else (case parsed of
                     None \<Rightarrow> (Inl JSONDecodeError, w2)
                   | Some NotDict \<Rightarrow> (Inl AttributeError, w2)
                   | Some (Dict rag_data) \<Rightarrow>
                       if rag_data ''verdict'' = Some (JStr ''malicious'')
                       then (let rule_name =
                                   ''RAG: '' @ py_str (dict_get rag_data ''detected_pattern''
                                                        (JStr ''Unknown Pattern''));
                                 w3 = logging WARNING
                                        ''RAG service identified payload as malicious'' w2
                             in (Inr (JSONResponse 403
                                        [(''detail'', ''Blocked by RAG analysis: '' @ rule_name)]),
                                 log_incident (JStr ip) (JStr payload) (JStr rule_name) w3))
                       else safe_request ip w2))"

definition payload_inspection_middleware ::
  "config \<Rightarrow> (string \<Rightarrow> string \<Rightarrow> http_reply) \<Rightarrow> request \<Rightarrow> world
     \<Rightarrow> (py_exn + response) \<times> world" where
  "payload_inspection_middleware cfg post req w =
     (if bypassed (path req) then (Inr CallNext, w)
      else
        (let ip = client_ip_of req; payload = payload_of req in
         case owasp_loop (OWASP_RULES cfg) payload ip w of
           (Some r, w1) \<Rightarrow> (Inr r, w1)
         | (None, w1) \<Rightarrow>
             (let triggered = check_regex_rules (REGEX_RULES cfg) payload in
              if triggered \<noteq> []
              then (Inr (JSONResponse 403
                           [(''detail'',
                             ''Blocked by Regex rule(s): '' @ py_join '', '' triggered)]),
                    log_incidents ip payload triggered
                      (logging WARNING ''Regex rule(s) triggered'' w1))
              else if RAG_SERVICE_URL cfg \<noteq> []
              then rag_stage (RAG_SERVICE_URL cfg) post payload ip w1
              else safe_request ip w1)))"

section \<open>Incident intake endpoint (main.py)\<close>

definition admin_auth :: "config \<Rightarrow> string \<Rightarrow> py_exn + unit" where
  "admin_auth cfg key = (if key \<noteq> ADMIN_KEY cfg then Inl (HTTPException 401) else Inr ())"

text \<open>
  \<^verbatim>\<open>add_incident\<close>. The body is what \<^verbatim>\<open>request.json()\<close> gives: \<open>None\<close> when it raises,
  otherwise a JSON value; \<^verbatim>\<open>data.get\<close> raises on a value that is not a dict. The three
  fields are taken as they are, whatever JSON value they hold. \<^verbatim>\<open>rule.startswith\<close>
  raises when \<^verbatim>\<open>rule\<close> is not a string, after \<^verbatim>\<open>log_incident\<close> has run. \<open>now\<close> is the
  clock's reading. Every exception but the \<^verbatim>\<open>HTTPException\<close> of \<^verbatim>\<open>admin_auth\<close> is
  answered with the 500 response, whose \<^verbatim>\<open>message\<close> is the exception's text and is left
  out.
\<close>

definition error_500 :: "world \<Rightarrow> (py_exn + response) \<times> world" where
  "error_500 w =
     (Inr (JSONResponse 500 [(''status'', ''error'')]),
      logging ERROR ''Failed to log incident'' w)"

definition add_incident ::
  "config \<Rightarrow> string \<Rightarrow> json option \<Rightarrow> nat \<Rightarrow> world \<Rightarrow> (py_exn + response) \<times> world" where
  "add_incident cfg key parsed now w =
     (case admin_auth cfg key of
        Inl e \<Rightarrow> (Inl e, w)
      | Inr _ \<Rightarrow>
          (case parsed of
             None \<Rightarrow> error_500 w
           | Some NotDict \<Rightarrow> error_500 w
           | Some (Dict data) \<Rightarrow>
               (let ip = dict_get data ''ip'' (JStr ''unknown'');
                    payload = dict_get data ''payload'' (JStr []);
                    rule = dict_get data ''rule'' (JStr ''Unknown'');
                    w1 = log_incident ip payload rule w
                in case rule of
                     JStr name \<Rightarrow>
                       (Inr (JSONResponse 200
                               [(''status'', ''success''),
                                (''message'', ''Incident logged successfully'')]),
                        if startswith name ''SURICATA''
                        then log_suricata_alert now ip name ''Suricata Alert'' 2 w1
                        else w1)
                   | _ \<Rightarrow> error_500 w1)))"

section \<open>Vocabulary of the properties\<close>

text \<open>The database raises on the next statement that reaches it.\<close>

definition next_fails :: "world \<Rightarrow> bool" where
  "next_fails w = (case db_faults w of True # _ \<Rightarrow> True | _ \<Rightarrow> False)"

text \<open>The database raises on none of the statements to come.\<close>

definition db_up :: "world \<Rightarrow> bool" where
  "db_up w = (True \<notin> set (db_faults w))"

text \<open>A signature rule fires on a payload: it is callable and returns true.\<close>

definition fires :: "rule_fn \<Rightarrow> string \<Rightarrow> bool" where
  "fires r payload = (case r of NotCallable \<Rightarrow> False | Callable f \<Rightarrow> f payload = Inr True)"

text \<open>The name of the first rule, in the table's order, that fires.\<close>

definition first_match :: "(string \<times> rule_fn) list \<Rightarrow> string \<Rightarrow> string option" where
  "first_match rules payload = map_option fst (find (\<lambda>(name, r). fires r payload) rules)"

text \<open>
  A database with nothing in it, that raises on nothing, and a runtime whose
  \<^verbatim>\<open>str.upper()\<close> is the ASCII one (the examples are ASCII text).
\<close>

definition world0 :: world where
  "world0 = \<lparr>incidents = [], requests = [], ttps = [], suricata_logs = [],
             incident_seq = 0, request_seq = 0, ttp_seq = 0, suricata_seq = 0,
             db_faults = [], executed = [], logs = [], rag_posts = [],
             str_upper = ascii_upper\<rparr>"

text \<open>The statements of the technique mapping of a rule name, for incident \<open>inc\<close>.\<close>

definition ttp_stmts :: "(string \<Rightarrow> string) \<Rightarrow> nat \<Rightarrow> string \<Rightarrow> stmt list" where
  "ttp_stmts up inc rule =
     (if py_in ''SQL'' (up rule)
      then [InsertTTP inc ''T1190'' ''Exploit Public-Facing Application''
              ''SQL Injection attempt detected.'']
      else if py_in ''XSS'' (up rule)
      then [InsertTTP inc ''T1059.007'' ''Cross-Site Scripting (XSS)''
              ''Potential XSS attack detected.'']
      else [])"

text \<open>The \<open>ERROR\<close> lines of the log.\<close>

definition errors :: "world \<Rightarrow> (level \<times> string) list" where
  "errors w = filter (\<lambda>e. fst e = ERROR) (logs w)"

text \<open>How many of the next \<open>n\<close> statements the database rejects.\<close>

definition failures :: "nat \<Rightarrow> world \<Rightarrow> nat" where
  "failures n w = length (filter id (take n (db_faults w)))"

text \<open>What the \<^verbatim>\<open>UPDATE\<close> of \<^verbatim>\<open>mark_incident_handled\<close> would do to one row.\<close>

definition handled :: "nat \<Rightarrow> incident \<Rightarrow> incident" where
  "handled i r = (if inc_id r = i then r\<lparr>inc_status := Some ''handled''\<rparr> else r)"

text \<open>The driver takes every value of the statement.\<close>

fun storable :: "stmt \<Rightarrow> bool" where
  "storable (InsertIncident ip payload rule) =
     (to_cell ip \<noteq> None \<and> to_cell payload \<noteq> None \<and> to_cell rule \<noteq> None)"
| "storable (InsertTTP inc tid tname descr) = True"
| "storable (InsertRequest status ip) = (to_cell ip \<noteq> None)"
| "storable (InsertSuricata ts src sig cat sev) = (to_cell src \<noteq> None)"
| "storable (UpdateHandled i) = True"

text \<open>The statement raises when it reaches the database.\<close>

definition raises :: "stmt \<Rightarrow> world \<Rightarrow> bool" where
  "raises st w = (next_fails w \<or> \<not> storable st)"

text \<open>The world after the technique mapping of \<^verbatim>\<open>log_incident\<close>.\<close>

definition ttp_step :: "(string \<Rightarrow> string) \<Rightarrow> nat \<Rightarrow> string \<Rightarrow> world \<Rightarrow> world" where
  "ttp_step up inc rule w =
     (if py_in ''SQL'' (up rule)
      then log_ttp inc ''T1190'' ''Exploit Public-Facing Application''
             ''SQL Injection attempt detected.'' w
      else if py_in ''XSS'' (up rule)
      then log_ttp inc ''T1059.007'' ''Cross-Site Scripting (XSS)''
             ''Potential XSS attack detected.'' w
      else w)"

text \<open>An incident and a table that holds it, for the examples.\<close>

definition inc1 :: incident where
  "inc1 = \<lparr>inc_id = 1, inc_ip = Some ''10.0.0.1'', inc_payload = Some ''x'',
            rule_triggered = Some ''SQLInjection'', inc_status = None\<rparr>"

definition world1 :: world where
  "world1 = world0\<lparr>incidents := [inc1], incident_seq := 1\<rparr>"

text \<open>Two worlds that differ in the log at most.\<close>

definition only_logged :: "world \<Rightarrow> world \<Rightarrow> bool" where
  "only_logged w w' = (w' = w\<lparr>logs := logs w'\<rparr>)"


text \<open>The incident inserts among the statements sent to the database.\<close>

fun is_incident_insert :: "stmt \<Rightarrow> bool" where
  "is_incident_insert (InsertIncident (JStr ip) (JStr payload) (JStr rule)) = True"
| "is_incident_insert (InsertTTP inc tid tname descr) = False"
| "is_incident_insert (InsertRequest status (JStr ip)) = False"
| "is_incident_insert (InsertSuricata ts src sig cat sev) = False"
| "is_incident_insert (UpdateHandled i) = False"

text \<open>A configuration with two signature rules and two regex rules, requests and replies
  of the analysis service, for the examples.\<close>

definition cfg_two :: config where
  "cfg_two =
     \<lparr>OWASP_RULES = [(''SQLInjection'', Callable (\<lambda>p. Inr (py_in ''OR 1=1'' p))),
                     (''Tautology'', Callable (\<lambda>p. Inr (py_in ''1=1'' p)))],
      REGEX_RULES = [(''script_tag'', \<lambda>p. py_in ''<script'' p),
                     (''dot_dot_slash'', \<lambda>p. py_in ''../'' p)],
      RAG_SERVICE_URL = ''http://rag-service:8000/analyze-payload'',
      ADMIN_KEY = ''supersecretadminkey''\<rparr>"

definition req_sqli :: request where
  "req_sqli = \<lparr>path = ''/login'', query = [], body = Some (CHR 0x27 # '' OR 1=1 --''),
               client_host = Some ''10.0.0.1''\<rparr>"

definition req_two_regex :: request where
  "req_two_regex = \<lparr>path = ''/view'', query = ''f=../../etc/passwd'',
                    body = Some ''<script>alert(1)</script>'',
                    client_host = Some ''10.0.0.1''\<rparr>"

definition post_down :: "string \<Rightarrow> string \<Rightarrow> http_reply" where
  "post_down url payload = RequestError"

text \<open>The world when the analysis service is about to be called.\<close>

definition posted :: "string \<Rightarrow> string \<Rightarrow> world \<Rightarrow> world" where
  "posted url payload w =
     (logging INFO ''Payload is unknown. Forwarding to RAG service for analysis.'' w)
       \<lparr>rag_posts := rag_posts w @ [(url, payload)]\<rparr>"

text \<open>
  The number of \<^verbatim>\<open>log_incident\<close> calls of a blocking decision: one per reported regex
  rule name when the regex stage blocks, one otherwise.
\<close>

definition incident_count :: "config \<Rightarrow> string \<Rightarrow> nat" where
  "incident_count cfg payload =
     (if first_match (OWASP_RULES cfg) payload = None \<and>
         check_regex_rules (REGEX_RULES cfg) payload \<noteq> []
      then length (check_regex_rules (REGEX_RULES cfg) payload) else 1)"

text \<open>
  A \<^verbatim>\<open>rule_triggered\<close> cell that is non-empty: not \<^verbatim>\<open>NULL\<close> and not the empty string.
  \<open>named w\<close>: every incident in the table has one.
\<close>

definition non_empty :: "cell \<Rightarrow> bool" where
  "non_empty c = (case c of None \<Rightarrow> False | Some s \<Rightarrow> s \<noteq> [])"

definition named :: "world \<Rightarrow> bool" where
  "named w = list_all (\<lambda>r. non_empty (rule_triggered r)) (incidents w)"

text \<open>A configuration without rules, with the default location of the analysis service.\<close>

definition cfg_plain :: config where
  "cfg_plain =
     \<lparr>OWASP_RULES = [], REGEX_RULES = [],
      RAG_SERVICE_URL = ''http://rag-service:8000/analyze-payload'',
      ADMIN_KEY = ''supersecretadminkey''\<rparr>"

definition req_hello :: request where
  "req_hello = \<lparr>path = ''/hello'', query = [], body = Some ''hello world'',
                client_host = Some ''10.0.0.1''\<rparr>"

definition post_benign :: "string \<Rightarrow> string \<Rightarrow> http_reply" where
  "post_benign url payload =
     Response 200 (Some (Dict [''verdict'' \<mapsto> JStr ''benign'',
                               ''reason'' \<mapsto> JStr ''Similarity score below threshold.'']))"

definition post_suspicious :: "string \<Rightarrow> string \<Rightarrow> http_reply" where
  "post_suspicious url payload = Response 200 (Some (Dict [''verdict'' \<mapsto> JStr ''suspicious'']))"

definition post_list :: "string \<Rightarrow> string \<Rightarrow> http_reply" where
  "post_list url payload = Response 200 (Some NotDict)"

definition post_500 :: "string \<Rightarrow> string \<Rightarrow> http_reply" where
  "post_500 url payload = Response 500 None"

definition post_not_json :: "string \<Rightarrow> string \<Rightarrow> http_reply" where
  "post_not_json url payload = Response 200 None"

text \<open>Two environments: \<^verbatim>\<open>RAG_SERVICE_URL\<close> absent, and set to the empty string.\<close>

definition env_no_rag :: "string \<rightharpoonup> string" where
  "env_no_rag = [''DATABASE_URL'' \<mapsto> ''postgresql://db/medsecurex'']"

definition env_empty_rag :: "string \<rightharpoonup> string" where
  "env_empty_rag = [''DATABASE_URL'' \<mapsto> ''postgresql://db/medsecurex'',
                    ''RAG_SERVICE_URL'' \<mapsto> []]"

section \<open>Properties\<close>

subsection \<open>The database\<close>

lemma next_fails_tl: "db_up w \<Longrightarrow> \<not> next_fails w"
  by (auto simp: db_up_def next_fails_def split: list.splits bool.splits)

lemma db_up_tl: "db_up w \<Longrightarrow> db_faults w' = tl (db_faults w) \<Longrightarrow> db_up w'"
  by (cases "db_faults w") (auto simp: db_up_def)

lemma db_up_logging: "db_up (logging l m w) = db_up w"
  by (simp add: db_up_def logging_def)

lemma next_fails_logging: "next_fails (logging l m w) = next_fails w"
  by (simp add: next_fails_def logging_def)

lemma logging_fields:
  "incidents (logging l m w) = incidents w"
  "requests (logging l m w) = requests w"
  "ttps (logging l m w) = ttps w"
  "incident_seq (logging l m w) = incident_seq w"
  "request_seq (logging l m w) = request_seq w"
  "ttp_seq (logging l m w) = ttp_seq w"
  "db_faults (logging l m w) = db_faults w"
  "executed (logging l m w) = executed w"
  "rag_posts (logging l m w) = rag_posts w"
  "str_upper (logging l m w) = str_upper w"
  "logs (logging l m w) = logs w @ [(l, m)]"
  by (simp_all add: logging_def)

lemma raises_strings:
  "raises (InsertIncident (JStr a) (JStr b) (JStr c)) w = next_fails w"
  "raises (InsertTTP inc tid tn d) w = next_fails w"
  "raises (InsertRequest s (JStr a)) w = next_fails w"
  "raises (UpdateHandled i) w = next_fails w"
  by (simp_all add: raises_def)

lemma run_stmt_None: "run_stmt st w = None \<longleftrightarrow> \<not> storable st"
  by (cases st) (auto simp: Let_def split: option.splits)

lemma execute_eq:
  "execute st w =
     (if raises st w
      then (Inl DatabaseError,
            w\<lparr>executed := executed w @ [st], db_faults := tl (db_faults w)\<rparr>)
      else (Inr (fst (the (run_stmt st
                   (w\<lparr>executed := executed w @ [st], db_faults := tl (db_faults w)\<rparr>)))),
            snd (the (run_stmt st
                   (w\<lparr>executed := executed w @ [st], db_faults := tl (db_faults w)\<rparr>)))))"
  by (simp add: execute_def Let_def option.case_eq_if case_prod_unfold run_stmt_None
      raises_def next_fails_def split: list.splits bool.splits)

lemma execute_isl: "isl (fst (execute st w)) = raises st w"
  by (simp add: execute_eq)

lemma execute_common:
  "db_faults (snd (execute st w)) = tl (db_faults w)"
  "executed (snd (execute st w)) = executed w @ [st]"
  "logs (snd (execute st w)) = logs w"
  "rag_posts (snd (execute st w)) = rag_posts w"
  "str_upper (snd (execute st w)) = str_upper w"
  by (cases st; simp add: execute_def Let_def split: list.splits bool.splits option.splits)+

lemma execute_fails:
  assumes "raises st w"
  shows "incidents (snd (execute st w)) = incidents w"
    "requests (snd (execute st w)) = requests w"
    "ttps (snd (execute st w)) = ttps w"
    "incident_seq (snd (execute st w)) = incident_seq w"
    "request_seq (snd (execute st w)) = request_seq w"
    "ttp_seq (snd (execute st w)) = ttp_seq w"
  using assms by (simp_all add: execute_eq)

lemma execute_runs:
  "\<not> raises st w \<Longrightarrow>
   execute st w =
     (Inr (fst (the (run_stmt st (w\<lparr>executed := executed w @ [st], db_faults := tl (db_faults w)\<rparr>)))),
      snd (the (run_stmt st (w\<lparr>executed := executed w @ [st], db_faults := tl (db_faults w)\<rparr>))))"
  by (simp add: execute_eq)

lemma execute_InsertIncident:
  "\<not> raises (InsertIncident ip p r) w \<Longrightarrow>
     fst (execute (InsertIncident ip p r) w) = Inr (Suc (incident_seq w))"
  "\<not> raises (InsertIncident ip p r) w \<Longrightarrow>
     incidents (snd (execute (InsertIncident ip p r) w)) =
       incidents w @ [\<lparr>inc_id = Suc (incident_seq w), inc_ip = the (to_cell ip),
                       inc_payload = the (to_cell p), rule_triggered = the (to_cell r),
                       inc_status = None\<rparr>]"
  "\<not> raises (InsertIncident ip p r) w \<Longrightarrow>
     incident_seq (snd (execute (InsertIncident ip p r) w)) = Suc (incident_seq w)"
  by (auto simp: execute_runs raises_def Let_def)

lemma execute_InsertIncident_other:
  "requests (snd (execute (InsertIncident ip p r) w)) = requests w"
  "ttps (snd (execute (InsertIncident ip p r) w)) = ttps w"
  "request_seq (snd (execute (InsertIncident ip p r) w)) = request_seq w"
  "ttp_seq (snd (execute (InsertIncident ip p r) w)) = ttp_seq w"
  by (cases "raises (InsertIncident ip p r) w";
      auto simp: execute_fails execute_runs raises_def Let_def)+

lemma execute_InsertTTP:
  "\<not> next_fails w \<Longrightarrow> ttps (snd (execute (InsertTTP inc a b c) w)) =
     ttps w @ [\<lparr>ttp_id = Suc (ttp_seq w), incident_id = inc, technique_id = a,
                technique_name = b, description = c\<rparr>]"
  "\<not> next_fails w \<Longrightarrow> ttp_seq (snd (execute (InsertTTP inc a b c) w)) = Suc (ttp_seq w)"
  by (simp_all add: execute_runs raises_strings Let_def)

lemma execute_InsertTTP_other:
  "requests (snd (execute (InsertTTP inc a b c) w)) = requests w"
  "incidents (snd (execute (InsertTTP inc a b c) w)) = incidents w"
  "request_seq (snd (execute (InsertTTP inc a b c) w)) = request_seq w"
  "incident_seq (snd (execute (InsertTTP inc a b c) w)) = incident_seq w"
  by (cases "next_fails w";
      simp add: execute_fails execute_runs raises_strings Let_def)+

lemma execute_InsertRequest:
  "\<not> raises (InsertRequest s ip) w \<Longrightarrow> requests (snd (execute (InsertRequest s ip) w)) =
     requests w @ [\<lparr>req_id = Suc (request_seq w), req_status = s, client_ip = the (to_cell ip)\<rparr>]"
  "\<not> raises (InsertRequest s ip) w \<Longrightarrow>
     request_seq (snd (execute (InsertRequest s ip) w)) = Suc (request_seq w)"
  by (auto simp: execute_runs raises_def Let_def)

lemma execute_InsertRequest_other:
  "ttps (snd (execute (InsertRequest s ip) w)) = ttps w"
  "incidents (snd (execute (InsertRequest s ip) w)) = incidents w"
  "ttp_seq (snd (execute (InsertRequest s ip) w)) = ttp_seq w"
  "incident_seq (snd (execute (InsertRequest s ip) w)) = incident_seq w"
  by (cases "raises (InsertRequest s ip) w";
      auto simp: execute_fails execute_runs raises_def Let_def)+

lemma execute_InsertSuricata:
  "ttps (snd (execute (InsertSuricata t a b c d) w)) = ttps w"
  "incidents (snd (execute (InsertSuricata t a b c d) w)) = incidents w"
  "requests (snd (execute (InsertSuricata t a b c d) w)) = requests w"
  by (cases "raises (InsertSuricata t a b c d) w";
      auto simp: execute_fails execute_runs raises_def Let_def)+

lemma execute_UpdateHandled:
  "\<not> next_fails w \<Longrightarrow> incidents (snd (execute (UpdateHandled i) w)) = map (handled i) (incidents w)"
  unfolding handled_def
  by (simp add: execute_runs raises_strings)

lemma database_execute_insert: "database_execute (InsertExpr st) False w = execute st w"
  by (simp add: database_execute_def build_query_def)

lemma database_execute_text: "database_execute (TextClause st) True w = (Inl AttributeError, w)"
  by (simp add: database_execute_def build_query_def)

subsection \<open>The recorder's functions, as one step each\<close>

lemma log_request_eq:
  "log_request s ip w =
     logging (if raises (InsertRequest s ip) w then ERROR else INFO)
             (if raises (InsertRequest s ip) w then ''Failed to log request'' else ''Request logged'')
             (snd (execute (InsertRequest s ip) w))"
  using execute_isl[of "InsertRequest s ip" w]
  by (cases "execute (InsertRequest s ip) w"; cases "fst (execute (InsertRequest s ip) w)")
     (auto simp: log_request_def database_execute_insert)

lemma log_ttp_eq:
  "log_ttp inc a b c w =
     logging (if next_fails w then ERROR else INFO)
             (if next_fails w then ''Failed to log TTP'' else ''Logged TTP'')
             (snd (execute (InsertTTP inc a b c) w))"
  using execute_isl[of "InsertTTP inc a b c" w]
  by (cases "execute (InsertTTP inc a b c) w"; cases "fst (execute (InsertTTP inc a b c) w)")
     (auto simp: log_ttp_def database_execute_insert raises_strings)

lemma log_suricata_alert_eq:
  "log_suricata_alert t a b c d w =
     logging (if raises (InsertSuricata t a b c d) w then ERROR else INFO)
             (if raises (InsertSuricata t a b c d) w then ''Failed to log Suricata alert''
              else ''Suricata alert logged'')
             (snd (execute (InsertSuricata t a b c d) w))"
  using execute_isl[of "InsertSuricata t a b c d" w]
  by (cases "execute (InsertSuricata t a b c d) w"; cases "fst (execute (InsertSuricata t a b c d) w)")
     (auto simp: log_suricata_alert_def database_execute_insert)

lemma mark_incident_handled_eq:
  "mark_incident_handled i w = (False, logging ERROR ''Failed to mark incident handled'' w)"
  by (simp add: mark_incident_handled_def database_execute_text)

lemma log_incident_fail:
  "raises (InsertIncident ip p r) w \<Longrightarrow>
   log_incident ip p r w =
     logging ERROR ''Failed to log incident'' (snd (execute (InsertIncident ip p r) w))"
  using execute_isl[of "InsertIncident ip p r" w]
  by (cases "execute (InsertIncident ip p r) w"; cases "fst (execute (InsertIncident ip p r) w)")
     (auto simp: log_incident_def database_execute_insert)

lemma log_incident_ok:
  "\<not> raises (InsertIncident ip p (JStr r)) w \<Longrightarrow>
   log_incident ip p (JStr r) w =
     log_request ''error'' ip
       (ttp_step (str_upper w) (Suc (incident_seq w)) r
          (logging WARNING ''Incident logged'' (snd (execute (InsertIncident ip p (JStr r)) w))))"
  using execute_InsertIncident(1)[of ip p "JStr r" w]
  by (cases "execute (InsertIncident ip p (JStr r)) w")
     (auto simp: log_incident_def ttp_step_def Let_def database_execute_insert)

lemma log_incident_not_str:
  "\<not> raises (InsertIncident ip p r) w \<Longrightarrow> \<forall>s. r \<noteq> JStr s \<Longrightarrow>
   log_incident ip p r w =
     logging ERROR ''Failed to log incident''
       (logging WARNING ''Incident logged'' (snd (execute (InsertIncident ip p r) w)))"
  using execute_InsertIncident(1)[of ip p r w]
  by (cases "execute (InsertIncident ip p r) w"; cases r)
     (auto simp: log_incident_def Let_def database_execute_insert)

lemma log_request_fields:
  "executed (log_request s ip w) = executed w @ [InsertRequest s ip]"
  "db_faults (log_request s ip w) = tl (db_faults w)"
  "incidents (log_request s ip w) = incidents w"
  "ttps (log_request s ip w) = ttps w"
  "rag_posts (log_request s ip w) = rag_posts w"
  "incident_seq (log_request s ip w) = incident_seq w"
  "ttp_seq (log_request s ip w) = ttp_seq w"
  "str_upper (log_request s ip w) = str_upper w"
  by (simp_all add: log_request_eq logging_fields execute_common execute_InsertRequest_other)

lemma log_request_requests:
  "requests (log_request s (JStr ip) w) =
     requests w @ (if next_fails w then []
                   else [\<lparr>req_id = Suc (request_seq w), req_status = s, client_ip = Some ip\<rparr>])"
  by (simp add: log_request_eq logging_fields execute_fails execute_InsertRequest raises_strings)

lemma log_request_request_seq:
  "\<not> next_fails w \<Longrightarrow> request_seq (log_request s (JStr ip) w) = Suc (request_seq w)"
  by (simp add: log_request_eq logging_fields execute_InsertRequest raises_strings)

lemma log_ttp_fields:
  "executed (log_ttp inc a b c w) = executed w @ [InsertTTP inc a b c]"
  "db_faults (log_ttp inc a b c w) = tl (db_faults w)"
  "incidents (log_ttp inc a b c w) = incidents w"
  "requests (log_ttp inc a b c w) = requests w"
  "rag_posts (log_ttp inc a b c w) = rag_posts w"
  "incident_seq (log_ttp inc a b c w) = incident_seq w"
  "request_seq (log_ttp inc a b c w) = request_seq w"
  "str_upper (log_ttp inc a b c w) = str_upper w"
  by (simp_all add: log_ttp_eq logging_fields execute_common execute_InsertTTP_other)

lemma log_ttp_ttps:
  "ttps (log_ttp inc a b c w) =
     ttps w @ (if next_fails w then []
               else [\<lparr>ttp_id = Suc (ttp_seq w), incident_id = inc, technique_id = a,
                      technique_name = b, description = c\<rparr>])"
  by (simp add: log_ttp_eq logging_fields execute_fails execute_InsertTTP raises_strings)

lemma log_request_db_up: "db_up w \<Longrightarrow> db_up (log_request s ip w)"
  by (rule db_up_tl[OF _ log_request_fields(2)])

lemma log_ttp_db_up: "db_up w \<Longrightarrow> db_up (log_ttp i a b c w)"
  by (rule db_up_tl[OF _ log_ttp_fields(2)])

lemma execute_db_up: "db_up w \<Longrightarrow> db_up (snd (execute st w))"
  by (rule db_up_tl[OF _ execute_common(1)])

lemma ttp_step_fields:
  "executed (ttp_step up inc r w) = executed w @ ttp_stmts up inc r"
  "incidents (ttp_step up inc r w) = incidents w"
  "requests (ttp_step up inc r w) = requests w"
  "rag_posts (ttp_step up inc r w) = rag_posts w"
  "incident_seq (ttp_step up inc r w) = incident_seq w"
  "request_seq (ttp_step up inc r w) = request_seq w"
  "str_upper (ttp_step up inc r w) = str_upper w"
  by (simp_all add: ttp_step_def ttp_stmts_def log_ttp_fields)

lemma ttp_step_db_up: "db_up w \<Longrightarrow> db_up (ttp_step up inc r w)"
  by (simp add: ttp_step_def log_ttp_db_up)

lemma log_incident_executed:
  "executed (log_incident (JStr ip) (JStr p) (JStr r) w) =
     executed w @ InsertIncident (JStr ip) (JStr p) (JStr r) #
       (if next_fails w then []
        else ttp_stmts (str_upper w) (Suc (incident_seq w)) r @
               [InsertRequest ''error'' (JStr ip)])"
  by (cases "next_fails w")
     (simp_all add: log_incident_fail log_incident_ok raises_strings logging_fields
        execute_common log_request_fields ttp_step_fields)

text \<open>
  The incidents table after \<^verbatim>\<open>log_incident\<close>, whatever values it is called with: one
  row more when the insert went through, none otherwise.
\<close>

lemma log_incident_incidents_any:
  "incidents (log_incident ip p r w) =
     incidents w @ (if raises (InsertIncident ip p r) w then []
        else [\<lparr>inc_id = Suc (incident_seq w), inc_ip = the (to_cell ip),
                inc_payload = the (to_cell p), rule_triggered = the (to_cell r),
                inc_status = None\<rparr>])"
proof (cases "raises (InsertIncident ip p r) w")
  case True
  then show ?thesis
    by (simp add: log_incident_fail logging_fields execute_fails)
next
  case False
  show ?thesis
  proof (cases "\<exists>s. r = JStr s")
    case True
    then obtain s where "r = JStr s" by blast
    with False show ?thesis
      by (simp add: log_incident_ok logging_fields execute_InsertIncident log_request_fields
          ttp_step_fields)
  next
    case nostr: False
    then have "\<forall>s. r \<noteq> JStr s" by blast
    with False show ?thesis
      by (simp add: log_incident_not_str logging_fields execute_InsertIncident)
  qed
qed


lemma log_incident_rag_posts:
  "rag_posts (log_incident (JStr ip) (JStr p) (JStr r) w) = rag_posts w"
  by (cases "next_fails w")
     (simp_all add: log_incident_fail log_incident_ok raises_strings logging_fields
        execute_common log_request_fields ttp_step_fields)

lemma log_incident_db_up: "db_up w \<Longrightarrow> db_up (log_incident (JStr ip) (JStr p) (JStr r) w)"
  by (simp add: next_fails_tl log_incident_ok raises_strings log_request_db_up ttp_step_db_up
      db_up_logging execute_db_up)

lemma log_incident_requests:
  assumes "db_up w"
  shows "requests (log_incident (JStr ip) (JStr p) (JStr r) w) =
           requests w @ [\<lparr>req_id = Suc (request_seq w), req_status = ''error'',
                           client_ip = Some ip\<rparr>]"
proof -
  let ?w3 = "ttp_step (str_upper w) (Suc (incident_seq w)) r
          (logging WARNING ''Incident logged''
             (snd (execute (InsertIncident (JStr ip) (JStr p) (JStr r)) w)))"
  have "db_up ?w3"
    using assms by (simp add: ttp_step_db_up db_up_logging execute_db_up)
  then have "\<not> next_fails ?w3" by (rule next_fails_tl)
  then show ?thesis
    using assms
    by (simp add: next_fails_tl log_incident_ok raises_strings log_request_requests
        ttp_step_fields logging_fields execute_InsertIncident_other)
qed

lemma db_up_world0: "db_up world0"
  by (simp add: db_up_def world0_def)

lemma mark_incident_handled_raises:
  "fst (mark_incident_handled i w) = False"
  "incidents (snd (mark_incident_handled i w)) = incidents w"
  "executed (snd (mark_incident_handled i w)) = executed w"
  by (simp_all add: mark_incident_handled_eq logging_fields)

text \<open>
  C9, the code at the failing input. The table holds incident 1, as \<^verbatim>\<open>log_incident\<close>
  wrote it, and the database is up. \<^verbatim>\<open>mark_incident_handled(1)\<close> passes a \<^verbatim>\<open>text(...)\<close>
  query together with \<^verbatim>\<open>values\<close> to \<^verbatim>\<open>database.execute\<close>, which raises while it
  builds the query: the function returns \<open>False\<close>, nothing reaches the database and the
  incident's status is what it was, on the first call and on the second.
\<close>

theorem mark_incident_handled_never_marks:
  "fst (mark_incident_handled 1 world1) = False \<and>
   executed (snd (mark_incident_handled 1 world1)) = [] \<and>
   incidents (snd (mark_incident_handled 1 world1)) = [inc1] \<and>
   fst (mark_incident_handled 1 (snd (mark_incident_handled 1 world1))) = False \<and>
   incidents (snd (mark_incident_handled 1 (snd (mark_incident_handled 1 world1)))) = [inc1]"
  by (simp add: mark_incident_handled_eq logging_fields world1_def world0_def)

text \<open>
  C6, as amended. With the database accepting the inserts, \<^verbatim>\<open>log_incident\<close>, called
  with a rule name, adds exactly one TTP row with technique id \<^verbatim>\<open>T1190\<close> when the name
  upper-cased by \<^verbatim>\<open>str.upper()\<close> contains \<^verbatim>\<open>SQL\<close>; exactly one with \<^verbatim>\<open>T1059.007\<close> when
  the upper-cased name contains \<^verbatim>\<open>XSS\<close> and does not contain \<^verbatim>\<open>SQL\<close>; and none
  otherwise. The row belongs to the incident just inserted. For a name in ASCII the
  upper-cased name is the name with \<^verbatim>\<open>a\<close>..\<^verbatim>\<open>z\<close> moved to \<^verbatim>\<open>A\<close>..\<^verbatim>\<open>Z\<close>: the test is
  then containment of the keyword whatever the case of the letters.
\<close>

theorem log_incident_ttp_mapping:
  assumes "db_up w"
  shows "ttps (log_incident (JStr ip) (JStr p) (JStr r) w) =
     ttps w @
       (if py_in ''SQL'' (str_upper w r)
        then [\<lparr>ttp_id = Suc (ttp_seq w), incident_id = Suc (incident_seq w),
               technique_id = ''T1190'',
               technique_name = ''Exploit Public-Facing Application'',
               description = ''SQL Injection attempt detected.''\<rparr>]
        else if py_in ''XSS'' (str_upper w r)
        then [\<lparr>ttp_id = Suc (ttp_seq w), incident_id = Suc (incident_seq w),
               technique_id = ''T1059.007'',
               technique_name = ''Cross-Site Scripting (XSS)'',
               description = ''Potential XSS attack detected.''\<rparr>]
        else []) \<and>
     (python_upper (str_upper w) \<longrightarrow> is_ascii r \<longrightarrow> str_upper w r = ascii_upper r)"
proof
  let ?w2 = "logging WARNING ''Incident logged''
               (snd (execute (InsertIncident (JStr ip) (JStr p) (JStr r)) w))"
  have "db_up ?w2"
    using assms by (simp add: db_up_logging execute_db_up)
  then have nf: "\<not> next_fails ?w2" by (rule next_fails_tl)
  from assms have "\<not> next_fails w" by (rule next_fails_tl)
  then show "ttps (log_incident (JStr ip) (JStr p) (JStr r) w) =
     ttps w @
       (if py_in ''SQL'' (str_upper w r)
        then [\<lparr>ttp_id = Suc (ttp_seq w), incident_id = Suc (incident_seq w),
               technique_id = ''T1190'',
               technique_name = ''Exploit Public-Facing Application'',
               description = ''SQL Injection attempt detected.''\<rparr>]
        else if py_in ''XSS'' (str_upper w r)
        then [\<lparr>ttp_id = Suc (ttp_seq w), incident_id = Suc (incident_seq w),
               technique_id = ''T1059.007'',
               technique_name = ''Cross-Site Scripting (XSS)'',
               description = ''Potential XSS attack detected.''\<rparr>]
        else [])"
    using nf
    by (simp add: log_incident_ok raises_strings log_request_fields ttp_step_def log_ttp_ttps
        logging_fields execute_InsertIncident_other)
  show "python_upper (str_upper w) \<longrightarrow> is_ascii r \<longrightarrow> str_upper w r = ascii_upper r"
    by (simp add: python_upper_def)
qed

theorem log_incident_ttp_mapping_witness:
  "db_up world0 \<and> python_upper (str_upper world0) \<and> is_ascii ''xss_reflected'' \<and>
   map technique_id
     (ttps (log_incident (JStr ''10.0.0.1'') (JStr ''<script>'') (JStr ''xss_reflected'') world0)) =
     [''T1059.007'']"
proof -
  have u: "str_upper world0 = ascii_upper" by (simp add: world0_def)
  have pu: "python_upper (str_upper world0)" by (simp add: u python_upper_def)
  have a: "is_ascii ''xss_reflected''" by code_simp
  have x: "py_in ''XSS'' (ascii_upper ''xss_reflected'')" by code_simp
  have s: "\<not> py_in ''SQL'' (ascii_upper ''xss_reflected'')" by code_simp
  have t: "ttps world0 = []" by (simp add: world0_def)
  from log_incident_ttp_mapping[OF db_up_world0, of "''10.0.0.1''" "''<script>''" "''xss_reflected''"]
  have "map technique_id
     (ttps (log_incident (JStr ''10.0.0.1'') (JStr ''<script>'') (JStr ''xss_reflected'') world0)) =
     [''T1059.007'']"
    by (simp add: u x s t)
  with db_up_world0 pu a show ?thesis by simp
qed

text \<open>
  C6 as stated fails for a rule name that contains both keywords: the name
  \<^verbatim>\<open>SQL-XSS\<close> contains \<^verbatim>\<open>XSS\<close>, and the only TTP row created is the \<^verbatim>\<open>T1190\<close> one.
\<close>

theorem log_incident_xss_counterexample:
  "is_ascii ''SQL-XSS'' \<and> py_in ''XSS'' (ascii_upper ''SQL-XSS'') \<and>
   map technique_id
     (ttps (log_incident (JStr ''10.0.0.1'') (JStr ''x'') (JStr ''SQL-XSS'') world0)) =
     [''T1190'']"
  by code_simp

text \<open>
  C5 as stated fails when the incident insert raises: the insert is the only statement
  sent to the database, the request-outcome insert is not attempted.
\<close>

theorem log_incident_failed_insert_counterexample:
  "executed (log_incident (JStr ''10.0.0.1'') (JStr ''x'') (JStr ''PathTraversal'')
              (world0\<lparr>db_faults := [True]\<rparr>)) =
     [InsertIncident (JStr ''10.0.0.1'') (JStr ''x'') (JStr ''PathTraversal'')]"
  by code_simp

subsection \<open>Failures and the lines they leave in the log\<close>

lemma failures_0: "failures 0 w = 0"
  by (simp add: failures_def)

lemma failures_Suc:
  "db_faults w' = tl (db_faults w) \<Longrightarrow>
   failures (Suc n) w = (if next_fails w then 1 else 0) + failures n w'"
  by (cases "db_faults w") (auto simp: failures_def next_fails_def split: bool.splits)

lemma errors_logging:
  "length (errors (logging l m w)) = length (errors w) + (if l = ERROR then 1 else 0)"
  by (simp add: errors_def logging_def)

lemma errors_execute: "errors (snd (execute st w)) = errors w"
  by (simp add: errors_def execute_common)

lemma errors_log_request:
  "length (errors (log_request s (JStr ip) w)) = length (errors w) + failures 1 w"
proof -
  have "failures (Suc 0) w =
      (if next_fails w then 1 else 0) + failures 0 (log_request s (JStr ip) w)"
    by (rule failures_Suc) (rule log_request_fields)
  then show ?thesis
    by (simp add: log_request_eq raises_strings errors_logging errors_execute failures_0)
qed

lemma errors_log_ttp:
  "length (errors (log_ttp inc a b c w)) + failures n (log_ttp inc a b c w) =
     length (errors w) + failures (Suc n) w"
proof -
  have 1: "failures (Suc n) w = (if next_fails w then 1 else 0) + failures n (log_ttp inc a b c w)"
    by (rule failures_Suc) (rule log_ttp_fields)
  have 2: "length (errors (log_ttp inc a b c w)) = length (errors w) + (if next_fails w then 1 else 0)"
    by (simp add: log_ttp_eq errors_logging errors_execute)
  show ?thesis unfolding 1 2 by simp
qed

lemma errors_ttp_step:
  "length (errors (ttp_step up inc r w)) + failures n (ttp_step up inc r w) =
     length (errors w) + failures (length (ttp_stmts up inc r) + n) w"
  by (simp add: ttp_step_def ttp_stmts_def errors_log_ttp)

lemma log_incident_errors:
  "length (errors (log_incident (JStr ip) (JStr p) (JStr r) w)) =
     length (errors w) +
     failures (if next_fails w then 1 else length (ttp_stmts (str_upper w) (Suc (incident_seq w)) r) + 2) w"
proof (cases "next_fails w")
  case True
  have "failures (Suc 0) w =
          (if next_fails w then 1 else 0) + failures 0 (snd (execute (InsertIncident (JStr ip) (JStr p) (JStr r)) w))"
    by (rule failures_Suc) (rule execute_common)
  with True show ?thesis
    by (simp add: log_incident_fail raises_strings errors_logging errors_execute failures_0)
next
  case False
  let ?w2 = "logging WARNING ''Incident logged'' (snd (execute (InsertIncident (JStr ip) (JStr p) (JStr r)) w))"
  let ?inc = "Suc (incident_seq w)"
  from False have nr: "\<not> raises (InsertIncident (JStr ip) (JStr p) (JStr r)) w"
    by (simp add: raises_strings)
  have e2: "length (errors ?w2) = length (errors w)"
    by (simp add: errors_logging errors_execute)
  have d2: "db_faults ?w2 = tl (db_faults w)"
    by (simp add: logging_fields execute_common)
  have f: "failures (Suc n) w = failures n ?w2" for n
    using failures_Suc[OF d2, of n] False by simp
  have "length (errors (log_incident (JStr ip) (JStr p) (JStr r) w)) =
          length (errors (ttp_step (str_upper w) ?inc r ?w2)) + failures 1 (ttp_step (str_upper w) ?inc r ?w2)"
    by (simp only: log_incident_ok[OF nr] errors_log_request)
  also have "\<dots> = length (errors ?w2) + failures (length (ttp_stmts (str_upper w) ?inc r) + 1) ?w2"
    by (rule errors_ttp_step)
  also have "\<dots> = length (errors w) + failures (length (ttp_stmts (str_upper w) ?inc r) + 2) w"
    using f[of "length (ttp_stmts (str_upper w) ?inc r) + 1"] by (simp only: e2) simp
  finally show ?thesis using False by simp
qed

text \<open>
  C5, as amended. \<^verbatim>\<open>log_incident\<close> always sends the incident insert. When that insert
  raises, nothing else is sent. When it is accepted, the TTP insert of the rule name (if
  the name has one) and the request-outcome insert with status \<^verbatim>\<open>error\<close> are both sent,
  whether or not the TTP insert raises. In every case the number of \<open>ERROR\<close> lines
  written to the log is the number of statements sent that raised, and the function
  returns to its caller (it is a total function from world to world: no exception
  leaves it).
\<close>

theorem log_incident_best_effort:
  "executed (log_incident (JStr ip) (JStr p) (JStr r) w) =
     executed w @ InsertIncident (JStr ip) (JStr p) (JStr r) #
       (if next_fails w then []
        else ttp_stmts (str_upper w) (Suc (incident_seq w)) r @ [InsertRequest ''error'' (JStr ip)]) \<and>
   length (errors (log_incident (JStr ip) (JStr p) (JStr r) w)) =
     length (errors w) +
     failures (length (executed (log_incident (JStr ip) (JStr p) (JStr r) w)) - length (executed w)) w"
proof
  show "executed (log_incident (JStr ip) (JStr p) (JStr r) w) =
     executed w @ InsertIncident (JStr ip) (JStr p) (JStr r) #
       (if next_fails w then []
        else ttp_stmts (str_upper w) (Suc (incident_seq w)) r @ [InsertRequest ''error'' (JStr ip)])"
    by (rule log_incident_executed)
  have "length (executed (log_incident (JStr ip) (JStr p) (JStr r) w)) - length (executed w) =
     (if next_fails w then 1 else length (ttp_stmts (str_upper w) (Suc (incident_seq w)) r) + 2)"
    by (simp add: log_incident_executed)
  then show "length (errors (log_incident (JStr ip) (JStr p) (JStr r) w)) =
     length (errors w) +
     failures (length (executed (log_incident (JStr ip) (JStr p) (JStr r) w)) - length (executed w)) w"
    by (simp only: log_incident_errors)
qed

theorem log_incident_best_effort_witness:
  "executed (log_incident (JStr ''10.0.0.1'') (JStr ''x'') (JStr ''SQLInjection'')
              (world0\<lparr>db_faults := [False, True]\<rparr>)) =
     [InsertIncident (JStr ''10.0.0.1'') (JStr ''x'') (JStr ''SQLInjection''),
      InsertTTP 1 ''T1190'' ''Exploit Public-Facing Application''
        ''SQL Injection attempt detected.'',
      InsertRequest ''error'' (JStr ''10.0.0.1'')] \<and>
   length (errors (log_incident (JStr ''10.0.0.1'') (JStr ''x'') (JStr ''SQLInjection'')
              (world0\<lparr>db_faults := [False, True]\<rparr>))) = 1"
proof -
  let ?w = "world0\<lparr>db_faults := [False, True]\<rparr>"
  have nf: "\<not> next_fails ?w" by (simp add: next_fails_def)
  have st: "ttp_stmts ascii_upper (Suc 0) ''SQLInjection'' =
      [InsertTTP (Suc 0) ''T1190'' ''Exploit Public-Facing Application''
        ''SQL Injection attempt detected.'']"
    by code_simp
  have w: "incident_seq world0 = 0" "executed world0 = []" "logs world0 = []"
    "str_upper world0 = ascii_upper"
    by (simp_all add: world0_def)
  from log_incident_best_effort[of "''10.0.0.1''" "''x''" "''SQLInjection''" ?w]
  show ?thesis by (simp add: nf st w errors_def failures_def)
qed

lemma only_logged_refl: "only_logged w w"
  by (simp add: only_logged_def)

lemma only_logged_logging: "only_logged w w' \<Longrightarrow> only_logged w (logging l m w')"
  unfolding only_logged_def logging_def
  by (cases w, cases w') simp

lemma only_logged_fields:
  assumes "only_logged w w'"
  shows "incidents w' = incidents w" "requests w' = requests w" "ttps w' = ttps w"
    "incident_seq w' = incident_seq w" "request_seq w' = request_seq w" "ttp_seq w' = ttp_seq w"
    "db_faults w' = db_faults w" "executed w' = executed w" "rag_posts w' = rag_posts w"
    "str_upper w' = str_upper w"
  using assms unfolding only_logged_def by (cases w, cases w', simp)+

lemma only_logged_db_up: "only_logged w w' \<Longrightarrow> db_up w' = db_up w"
  by (simp add: db_up_def only_logged_fields)

lemma only_logged_next_fails: "only_logged w w' \<Longrightarrow> next_fails w' = next_fails w"
  by (simp add: next_fails_def only_logged_fields)

lemma first_match_Nil: "first_match [] p = None"
  by (simp add: first_match_def)

lemma first_match_Cons:
  "first_match ((n, r) # rest) p = (if fires r p then Some n else first_match rest p)"
  by (simp add: first_match_def)

lemma first_match_None: "first_match rules p = None \<longleftrightarrow> (\<forall>x \<in> set rules. \<not> fires (snd x) p)"
  by (induction rules) (auto simp: first_match_Nil first_match_Cons split: if_splits)

lemma first_match_Some:
  "first_match rules p = Some name \<Longrightarrow>
   \<exists>pre r rest. rules = pre @ (name, r) # rest \<and> fires r p \<and>
     (\<forall>x \<in> set pre. \<not> fires (snd x) p)"
proof (induction rules)
  case Nil
  then show ?case by (simp add: first_match_Nil)
next
  case (Cons a rules)
  obtain n r where a: "a = (n, r)" by (cases a)
  show ?case
  proof (cases "fires r p")
    case True
    with Cons.prems a have "n = name" by (simp add: first_match_Cons)
    with True a have "a # rules = [] @ (name, r) # rules \<and> fires r p \<and>
        (\<forall>x \<in> set []. \<not> fires (snd x) p)" by simp
    then show ?thesis by blast
  next
    case False
    with Cons.prems a have "first_match rules p = Some name" by (simp add: first_match_Cons)
    from Cons.IH[OF this] obtain pre r' rest where
      r: "rules = pre @ (name, r') # rest" "fires r' p" "\<forall>x \<in> set pre. \<not> fires (snd x) p"
      by blast
    from r False a have "a # rules = (a # pre) @ (name, r') # rest \<and> fires r' p \<and>
        (\<forall>x \<in> set (a # pre). \<not> fires (snd x) p)" by simp
    then show ?thesis by blast
  qed
qed

lemma owasp_loop_step:
  "owasp_loop ((n, r) # rest) payload ip w =
     (if fires r payload
      then (Some (JSONResponse 403 [(''detail'', ''Blocked by OWASP rule: '' @ n)]),
            log_incident (JStr ip) (JStr payload) (JStr n) (logging WARNING ''OWASP rule triggered'' w))
      else owasp_loop rest payload ip
             (case r of NotCallable \<Rightarrow> w
              | Callable f \<Rightarrow> (case f payload of Inl e \<Rightarrow> logging ERROR ''Error evaluating rule'' w
                               | Inr b \<Rightarrow> w)))"
  by (simp add: fires_def split: rule_fn.splits sum.splits bool.splits)

lemma owasp_loop_skip:
  "only_logged w
     (case r of NotCallable \<Rightarrow> w
      | Callable f \<Rightarrow> (case f payload of Inl e \<Rightarrow> logging ERROR ''Error evaluating rule'' w
                       | Inr b \<Rightarrow> w))"
  by (simp add: only_logged_refl only_logged_logging split: rule_fn.splits sum.splits)

lemma only_logged_trans: "only_logged a b \<Longrightarrow> only_logged b c \<Longrightarrow> only_logged a c"
  unfolding only_logged_def by (cases a, cases b, cases c) simp

lemma owasp_loop_None:
  "first_match rules payload = None \<Longrightarrow>
   \<exists>w0. only_logged w w0 \<and> owasp_loop rules payload ip w = (None, w0)"
proof (induction rules arbitrary: w)
  case Nil
  then show ?case by (simp add: only_logged_refl)
next
  case (Cons a rules)
  obtain n r where a: "a = (n, r)" by (cases a)
  let ?w = "case r of NotCallable \<Rightarrow> w
      | Callable f \<Rightarrow> (case f payload of Inl e \<Rightarrow> logging ERROR ''Error evaluating rule'' w
                       | Inr b \<Rightarrow> w)"
  from Cons.prems a have nf: "\<not> fires r payload" and rest: "first_match rules payload = None"
    by (simp_all add: first_match_Cons split: if_splits)
  from Cons.IH[OF rest, of ?w] obtain w0 where
    w0: "only_logged ?w w0" "owasp_loop rules payload ip ?w = (None, w0)" by blast
  have "only_logged w w0"
    using owasp_loop_skip w0(1) by (rule only_logged_trans)
  moreover have "owasp_loop (a # rules) payload ip w = (None, w0)"
    unfolding a owasp_loop_step using nf w0(2) by simp
  ultimately show ?case by blast
qed

lemma owasp_loop_Some:
  "first_match rules payload = Some name \<Longrightarrow>
   \<exists>w0. only_logged w w0 \<and>
     owasp_loop rules payload ip w =
       (Some (JSONResponse 403 [(''detail'', ''Blocked by OWASP rule: '' @ name)]),
        log_incident (JStr ip) (JStr payload) (JStr name) w0)"
proof (induction rules arbitrary: w)
  case Nil
  then show ?case by (simp add: first_match_Nil)
next
  case (Cons a rules)
  obtain n r where a: "a = (n, r)" by (cases a)
  let ?w = "case r of NotCallable \<Rightarrow> w
      | Callable f \<Rightarrow> (case f payload of Inl e \<Rightarrow> logging ERROR ''Error evaluating rule'' w
                       | Inr b \<Rightarrow> w)"
  show ?case
  proof (cases "fires r payload")
    case True
    with Cons.prems a have n: "n = name" by (simp add: first_match_Cons)
    have "only_logged w (logging WARNING ''OWASP rule triggered'' w)"
      by (rule only_logged_logging) (rule only_logged_refl)
    moreover have "owasp_loop (a # rules) payload ip w =
       (Some (JSONResponse 403 [(''detail'', ''Blocked by OWASP rule: '' @ name)]),
        log_incident (JStr ip) (JStr payload) (JStr name) (logging WARNING ''OWASP rule triggered'' w))"
      unfolding a owasp_loop_step using True n by simp
    ultimately show ?thesis by blast
  next
    case False
    with Cons.prems a have rest: "first_match rules payload = Some name"
      by (simp add: first_match_Cons)
    from Cons.IH[OF rest, of ?w] obtain w0 where
      w0: "only_logged ?w w0"
        "owasp_loop rules payload ip ?w =
           (Some (JSONResponse 403 [(''detail'', ''Blocked by OWASP rule: '' @ name)]),
            log_incident (JStr ip) (JStr payload) (JStr name) w0)" by blast
    have "only_logged w w0"
      using owasp_loop_skip w0(1) by (rule only_logged_trans)
    moreover have "owasp_loop (a # rules) payload ip w =
           (Some (JSONResponse 403 [(''detail'', ''Blocked by OWASP rule: '' @ name)]),
            log_incident (JStr ip) (JStr payload) (JStr name) w0)"
      unfolding a owasp_loop_step using False w0(2) by simp
    ultimately show ?thesis by blast
  qed
qed

subsection \<open>The paths through the middleware\<close>

lemma middleware_signature:
  assumes "\<not> bypassed (path req)" "first_match (OWASP_RULES cfg) (payload_of req) = Some name"
  shows "\<exists>w0. only_logged w w0 \<and>
     payload_inspection_middleware cfg post req w =
       (Inr (JSONResponse 403 [(''detail'', ''Blocked by OWASP rule: '' @ name)]),
        log_incident (JStr (client_ip_of req)) (JStr (payload_of req)) (JStr name) w0)"
proof -
  from owasp_loop_Some[OF assms(2), of w "client_ip_of req"] obtain w0 where
    w0: "only_logged w w0"
      "owasp_loop (OWASP_RULES cfg) (payload_of req) (client_ip_of req) w =
         (Some (JSONResponse 403 [(''detail'', ''Blocked by OWASP rule: '' @ name)]),
          log_incident (JStr (client_ip_of req)) (JStr (payload_of req)) (JStr name) w0)" by blast
  have "payload_inspection_middleware cfg post req w =
       (Inr (JSONResponse 403 [(''detail'', ''Blocked by OWASP rule: '' @ name)]),
        log_incident (JStr (client_ip_of req)) (JStr (payload_of req)) (JStr name) w0)"
    using assms(1) w0(2) by (simp add: payload_inspection_middleware_def Let_def)
  with w0(1) show ?thesis by blast
qed

lemma middleware_regex:
  assumes "\<not> bypassed (path req)" "first_match (OWASP_RULES cfg) (payload_of req) = None"
    "check_regex_rules (REGEX_RULES cfg) (payload_of req) \<noteq> []"
  shows "\<exists>w0. only_logged w w0 \<and>
     payload_inspection_middleware cfg post req w =
       (Inr (JSONResponse 403
          [(''detail'', ''Blocked by Regex rule(s): '' @
              py_join '', '' (check_regex_rules (REGEX_RULES cfg) (payload_of req)))]),
        log_incidents (client_ip_of req) (payload_of req)
          (check_regex_rules (REGEX_RULES cfg) (payload_of req)) w0)"
proof -
  from owasp_loop_None[OF assms(2), of w "client_ip_of req"] obtain w0 where
    w0: "only_logged w w0"
      "owasp_loop (OWASP_RULES cfg) (payload_of req) (client_ip_of req) w = (None, w0)" by blast
  have "only_logged w (logging WARNING ''Regex rule(s) triggered'' w0)"
    using w0(1) by (rule only_logged_logging)
  moreover have "payload_inspection_middleware cfg post req w =
       (Inr (JSONResponse 403
          [(''detail'', ''Blocked by Regex rule(s): '' @
              py_join '', '' (check_regex_rules (REGEX_RULES cfg) (payload_of req)))]),
        log_incidents (client_ip_of req) (payload_of req)
          (check_regex_rules (REGEX_RULES cfg) (payload_of req))
          (logging WARNING ''Regex rule(s) triggered'' w0))"
    using assms(1,3) w0(2) by (simp add: payload_inspection_middleware_def Let_def)
  ultimately show ?thesis by blast
qed

lemma middleware_unmatched:
  assumes "\<not> bypassed (path req)" "first_match (OWASP_RULES cfg) (payload_of req) = None"
    "check_regex_rules (REGEX_RULES cfg) (payload_of req) = []"
  shows "\<exists>w0. only_logged w w0 \<and>
     payload_inspection_middleware cfg post req w =
       (if RAG_SERVICE_URL cfg \<noteq> []
        then rag_stage (RAG_SERVICE_URL cfg) post (payload_of req) (client_ip_of req) w0
        else safe_request (client_ip_of req) w0)"
proof -
  from owasp_loop_None[OF assms(2), of w "client_ip_of req"] obtain w0 where
    w0: "only_logged w w0"
      "owasp_loop (OWASP_RULES cfg) (payload_of req) (client_ip_of req) w = (None, w0)" by blast
  have "payload_inspection_middleware cfg post req w =
       (if RAG_SERVICE_URL cfg \<noteq> []
        then rag_stage (RAG_SERVICE_URL cfg) post (payload_of req) (client_ip_of req) w0
        else safe_request (client_ip_of req) w0)"
    using assms(1,3) w0(2) by (simp add: payload_inspection_middleware_def Let_def)
  with w0(1) show ?thesis by blast
qed

subsection \<open>Substrings\<close>

lemma startswith_iff: "startswith s p \<longleftrightarrow> (\<exists>b. s = p @ b)"
  unfolding startswith_def
  by (metis append_eq_conv_conj append_take_drop_id)

lemma py_in_iff: "py_in sub s \<longleftrightarrow> (\<exists>a b. s = a @ sub @ b)"
proof (induction s)
  case Nil
  then show ?case by simp
next
  case (Cons c cs)
  show ?case
  proof
    assume "py_in sub (c # cs)"
    then consider "startswith (c # cs) sub" | "py_in sub cs" by auto
    then show "\<exists>a b. c # cs = a @ sub @ b"
    proof cases
      case 1
      then obtain b where "c # cs = sub @ b" unfolding startswith_iff by blast
      then have "c # cs = [] @ sub @ b" by simp
      then show ?thesis by blast
    next
      case 2
      then obtain a b where "cs = a @ sub @ b" using Cons.IH by blast
      then have "c # cs = (c # a) @ sub @ b" by simp
      then show ?thesis by blast
    qed
  next
    assume "\<exists>a b. c # cs = a @ sub @ b"
    then obtain a b where ab: "c # cs = a @ sub @ b" by blast
    show "py_in sub (c # cs)"
    proof (cases a)
      case Nil
      with ab have "startswith (c # cs) sub" unfolding startswith_iff by auto
      then show ?thesis by simp
    next
      case (Cons x a')
      with ab have "cs = a' @ sub @ b" by simp
      then have "py_in sub cs" using Cons.IH by blast
      then show ?thesis by simp
    qed
  qed
qed



subsection \<open>Several incidents\<close>

lemma log_incidents_Nil: "log_incidents ip p [] w = w"
  by (simp add: log_incidents_def)

lemma log_incidents_Cons:
  "log_incidents ip p (r # rs) w = log_incidents ip p rs (log_incident (JStr ip) (JStr p) (JStr r) w)"
  by (simp add: log_incidents_def)

lemma log_incident_inserts:
  "filter is_incident_insert (executed (log_incident (JStr ip) (JStr p) (JStr r) w)) =
     filter is_incident_insert (executed w) @ [InsertIncident (JStr ip) (JStr p) (JStr r)]"
  by (simp add: log_incident_executed ttp_stmts_def)


lemma log_incidents_rag_posts: "rag_posts (log_incidents ip p rs w) = rag_posts w"
  by (induction rs arbitrary: w)
     (simp_all add: log_incidents_Nil log_incidents_Cons log_incident_rag_posts)

lemma log_incidents_db_up: "db_up w \<Longrightarrow> db_up (log_incidents ip p rs w)"
  by (induction rs arbitrary: w)
     (simp_all add: log_incidents_Nil log_incidents_Cons log_incident_db_up)



lemma log_incidents_requests:
  "db_up w \<Longrightarrow>
   map req_status (requests (log_incidents ip p rs w)) =
     map req_status (requests w) @ replicate (length rs) ''error''"
proof (induction rs arbitrary: w)
  case Nil
  then show ?case by (simp add: log_incidents_Nil)
next
  case (Cons r rs)
  from Cons.prems have up: "db_up (log_incident (JStr ip) (JStr p) (JStr r) w)" by (rule log_incident_db_up)
  show ?case
    unfolding log_incidents_Cons Cons.IH[OF up]
    using Cons.prems by (simp add: log_incident_requests)
qed

text \<open>
  C1. When some signature rule fires on the payload of a request that is not bypassed,
  the rule table splits at the first rule that fires (no rule before it fires), the
  response is the 403 that names that rule, the one incident insert sent to the database
  is for that rule name, and nothing is posted to the analysis service.
\<close>

theorem signature_match_blocks:
  assumes nb: "\<not> bypassed (path req)"
    and mem: "x \<in> set (OWASP_RULES cfg)"
    and f: "fires (snd x) (payload_of req)"
  shows "\<exists>pre name r rest.
           OWASP_RULES cfg = pre @ (name, r) # rest \<and>
           fires r (payload_of req) \<and>
           (\<forall>y \<in> set pre. \<not> fires (snd y) (payload_of req)) \<and>
           fst (payload_inspection_middleware cfg post req w) =
             Inr (JSONResponse 403 [(''detail'', ''Blocked by OWASP rule: '' @ name)]) \<and>
           filter is_incident_insert (executed (snd (payload_inspection_middleware cfg post req w))) =
             filter is_incident_insert (executed w) @
               [InsertIncident (JStr (client_ip_of req)) (JStr (payload_of req)) (JStr name)] \<and>
           rag_posts (snd (payload_inspection_middleware cfg post req w)) = rag_posts w"
proof -
  from mem f have "first_match (OWASP_RULES cfg) (payload_of req) \<noteq> None"
    unfolding first_match_None by blast
  then obtain name where fm: "first_match (OWASP_RULES cfg) (payload_of req) = Some name"
    by blast
  from first_match_Some[OF fm] obtain pre r rest where
    split: "OWASP_RULES cfg = pre @ (name, r) # rest" "fires r (payload_of req)"
      "\<forall>y \<in> set pre. \<not> fires (snd y) (payload_of req)" by blast
  from middleware_signature[OF nb fm, of w post] obtain w0 where
    w0: "only_logged w w0"
      "payload_inspection_middleware cfg post req w =
         (Inr (JSONResponse 403 [(''detail'', ''Blocked by OWASP rule: '' @ name)]),
          log_incident (JStr (client_ip_of req)) (JStr (payload_of req)) (JStr name) w0)" by blast
  have r: "fst (payload_inspection_middleware cfg post req w) =
             Inr (JSONResponse 403 [(''detail'', ''Blocked by OWASP rule: '' @ name)])"
    by (simp add: w0(2))
  have e: "filter is_incident_insert (executed (snd (payload_inspection_middleware cfg post req w))) =
             filter is_incident_insert (executed w) @
               [InsertIncident (JStr (client_ip_of req)) (JStr (payload_of req)) (JStr name)]"
    by (simp add: w0(2) log_incident_inserts only_logged_fields[OF w0(1)])
  have p: "rag_posts (snd (payload_inspection_middleware cfg post req w)) = rag_posts w"
    by (simp add: w0(2) log_incident_rag_posts only_logged_fields[OF w0(1)])
  from split r e p show ?thesis by blast
qed

theorem signature_match_blocks_witness:
  "\<not> bypassed (path req_sqli) \<and>
   (''Tautology'', Callable (\<lambda>p. Inr (py_in ''1=1'' p))) \<in> set (OWASP_RULES cfg_two) \<and>
   fires (Callable (\<lambda>p. Inr (py_in ''1=1'' p))) (payload_of req_sqli) \<and>
   fst (payload_inspection_middleware cfg_two post_down req_sqli world0) =
     Inr (JSONResponse 403 [(''detail'', ''Blocked by OWASP rule: SQLInjection'')]) \<and>
   rag_posts (snd (payload_inspection_middleware cfg_two post_down req_sqli world0)) =
     rag_posts world0"
proof -
  have nb: "\<not> bypassed (path req_sqli)" by code_simp
  have mem: "(''Tautology'', Callable (\<lambda>p. Inr (py_in ''1=1'' p))) \<in> set (OWASP_RULES cfg_two)"
    by (simp add: cfg_two_def)
  have f: "fires (snd (''Tautology'', Callable (\<lambda>p. Inr (py_in ''1=1'' p)))) (payload_of req_sqli)"
    by code_simp
  have r: "fst (payload_inspection_middleware cfg_two post_down req_sqli world0) =
     Inr (JSONResponse 403 [(''detail'', ''Blocked by OWASP rule: SQLInjection'')])"
    by code_simp
  from signature_match_blocks[OF nb mem f, of post_down world0]
  have "rag_posts (snd (payload_inspection_middleware cfg_two post_down req_sqli world0)) =
     rag_posts world0" by blast
  with nb mem f r show ?thesis by simp
qed



subsection \<open>The semantic stage\<close>

lemma posted_fields:
  "incidents (posted u p w) = incidents w"
  "requests (posted u p w) = requests w"
  "request_seq (posted u p w) = request_seq w"
  "executed (posted u p w) = executed w"
  "db_faults (posted u p w) = db_faults w"
  "rag_posts (posted u p w) = rag_posts w @ [(u, p)]"
  "str_upper (posted u p w) = str_upper w"
  by (simp_all add: posted_def logging_def)

lemma posted_db_up: "db_up (posted u p w) = db_up w"
  by (simp add: db_up_def posted_fields)

lemma posted_next_fails: "next_fails (posted u p w) = next_fails w"
  by (simp add: next_fails_def posted_fields)

lemma rag_stage_eq:
  "rag_stage url post payload ip w =
     (case post url payload of
        RequestError \<Rightarrow>
          (Inr (JSONResponse 503 [(''detail'', ''Service Unavailable: Analysis service is down.'')]),
           logging ERROR ''Could not connect to RAG service'' (posted url payload w))
      | Response status parsed \<Rightarrow>
          if \<not> is_success status then (Inl HTTPStatusError, posted url payload w)
          else (case parsed of
                  None \<Rightarrow> (Inl JSONDecodeError, posted url payload w)
                | Some NotDict \<Rightarrow> (Inl AttributeError, posted url payload w)
                | Some (Dict rag_data) \<Rightarrow>
                    if rag_data ''verdict'' = Some (JStr ''malicious'')
                    then (Inr (JSONResponse 403
                                 [(''detail'', ''Blocked by RAG analysis: '' @ ''RAG: '' @
                                     py_str (dict_get rag_data ''detected_pattern''
                                               (JStr ''Unknown Pattern'')))]),
                          log_incident (JStr ip) (JStr payload)
                            (JStr (''RAG: '' @ py_str (dict_get rag_data ''detected_pattern''
                                                  (JStr ''Unknown Pattern''))))
                            (logging WARNING ''RAG service identified payload as malicious''
                               (posted url payload w)))
                    else safe_request ip (posted url payload w)))"
  by (simp add: rag_stage_def posted_def Let_def logging_def
      split: http_reply.splits option.splits json.splits)

lemma rag_stage_requests:
  assumes up: "db_up w" and res: "rag_stage url post payload ip w = (Inr resp, w')"
  shows "map req_status (requests w') =
           map req_status (requests w) @
             (case resp of CallNext \<Rightarrow> [''success'']
              | JSONResponse code content \<Rightarrow> if code = 403 then [''error''] else [])"
proof (cases "post url payload")
  case RequestError
  with res show ?thesis
    by (auto simp: rag_stage_eq logging_fields posted_fields)
next
  case (Response status parsed)
  show ?thesis
  proof (cases "is_success status")
    case False
    with res Response show ?thesis by (simp add: rag_stage_eq)
  next
    case True
    show ?thesis
    proof (cases parsed)
      case None
      with res Response True show ?thesis by (simp add: rag_stage_eq)
    next
      case (Some j)
      show ?thesis
      proof (cases j)
        case NotDict
        with res Response True Some show ?thesis by (simp add: rag_stage_eq)
      next
        case (Dict rag_data)
        have up2: "db_up (logging WARNING ''RAG service identified payload as malicious''
                               (posted url payload w))"
          using up by (simp add: db_up_logging posted_db_up)
        have nf: "\<not> next_fails (posted url payload w)"
          using up by (simp add: posted_next_fails next_fails_tl)
        from res Response True Some Dict show ?thesis
          by (auto simp: rag_stage_eq safe_request_def log_incident_requests[OF up2]
                log_request_requests nf logging_fields posted_fields split: if_splits)
      qed
    qed
  qed
qed

lemma safe_request_requests:
  assumes up: "db_up w" and res: "safe_request ip w = (Inr resp, w')"
  shows "map req_status (requests w') =
           map req_status (requests w) @
             (case resp of CallNext \<Rightarrow> [''success'']
              | JSONResponse code content \<Rightarrow> if code = 403 then [''error''] else [])"
  using res next_fails_tl[OF up] by (auto simp: safe_request_def log_request_requests)

text \<open>
  C4, as amended. For a request that is not bypassed and gets a response, with the
  database up: when the request is allowed, one Request Outcome row with status
  \<^verbatim>\<open>success\<close> is written; when it is blocked with a 403, one row with status \<^verbatim>\<open>error\<close> is
  written per incident logged (one for a signature rule or a malicious verdict, one per
  reported name for the regex rules); when it is answered with the 503 of the
  unreachable analysis service, no row is written.
\<close>

theorem request_outcome_rows:
  assumes nb: "\<not> bypassed (path req)" and up: "db_up w"
    and res: "payload_inspection_middleware cfg post req w = (Inr resp, w')"
  shows "map req_status (requests w') =
           map req_status (requests w) @
             (case resp of CallNext \<Rightarrow> [''success'']
              | JSONResponse code content \<Rightarrow>
                  if code = 403 then replicate (incident_count cfg (payload_of req)) ''error''
                  else [])"
proof (cases "first_match (OWASP_RULES cfg) (payload_of req)")
  case (Some name)
  from middleware_signature[OF nb Some, of w post] obtain w0 where
    w0: "only_logged w w0"
      "payload_inspection_middleware cfg post req w =
         (Inr (JSONResponse 403 [(''detail'', ''Blocked by OWASP rule: '' @ name)]),
          log_incident (JStr (client_ip_of req)) (JStr (payload_of req)) (JStr name) w0)" by blast
  from up have up0: "db_up w0" by (simp add: only_logged_db_up[OF w0(1)])
  from res w0(2) Some show ?thesis
    by (auto simp: incident_count_def log_incident_requests[OF up0] only_logged_fields[OF w0(1)])
next
  case None
  show ?thesis
  proof (cases "check_regex_rules (REGEX_RULES cfg) (payload_of req) = []")
    case False
    from middleware_regex[OF nb None False, of w post] obtain w0 where
      w0: "only_logged w w0"
        "payload_inspection_middleware cfg post req w =
           (Inr (JSONResponse 403
              [(''detail'', ''Blocked by Regex rule(s): '' @
                  py_join '', '' (check_regex_rules (REGEX_RULES cfg) (payload_of req)))]),
            log_incidents (client_ip_of req) (payload_of req)
              (check_regex_rules (REGEX_RULES cfg) (payload_of req)) w0)" by blast
    from up have up0: "db_up w0" by (simp add: only_logged_db_up[OF w0(1)])
    from res w0(2) None False show ?thesis
      by (auto simp: incident_count_def log_incidents_requests[OF up0]
            only_logged_fields[OF w0(1)])
  next
    case True
    from middleware_unmatched[OF nb None True, of w post] obtain w0 where
      w0: "only_logged w w0"
        "payload_inspection_middleware cfg post req w =
           (if RAG_SERVICE_URL cfg \<noteq> []
            then rag_stage (RAG_SERVICE_URL cfg) post (payload_of req) (client_ip_of req) w0
            else safe_request (client_ip_of req) w0)" by blast
    from up have up0: "db_up w0" by (simp add: only_logged_db_up[OF w0(1)])
    have c: "incident_count cfg (payload_of req) = 1"
      using True by (simp add: incident_count_def)
    have "map req_status (requests w') =
           map req_status (requests w0) @
             (case resp of CallNext \<Rightarrow> [''success'']
              | JSONResponse code content \<Rightarrow> if code = 403 then [''error''] else [])"
    proof (cases "RAG_SERVICE_URL cfg = []")
      case True
      with res w0(2) have "safe_request (client_ip_of req) w0 = (Inr resp, w')" by simp
      with up0 show ?thesis by (rule safe_request_requests)
    next
      case False
      with res w0(2) have
        "rag_stage (RAG_SERVICE_URL cfg) post (payload_of req) (client_ip_of req) w0 = (Inr resp, w')"
        by simp
      with up0 show ?thesis by (rule rag_stage_requests)
    qed
    then show ?thesis
      by (simp add: c only_logged_fields[OF w0(1)] split: response.splits)
  qed
qed

theorem request_outcome_rows_witness:
  "\<not> bypassed (path req_hello) \<and> db_up world0 \<and>
   fst (payload_inspection_middleware cfg_plain post_benign req_hello world0) = Inr CallNext \<and>
   map req_status (requests (snd (payload_inspection_middleware cfg_plain post_benign req_hello world0))) =
     [''success'']"
proof -
  have nb: "\<not> bypassed (path req_hello)" by code_simp
  have r: "fst (payload_inspection_middleware cfg_plain post_benign req_hello world0) = Inr CallNext"
    by code_simp
  then have res: "payload_inspection_middleware cfg_plain post_benign req_hello world0 =
      (Inr CallNext, snd (payload_inspection_middleware cfg_plain post_benign req_hello world0))"
    by (metis prod.collapse)
  have w: "requests world0 = []" by (simp add: world0_def)
  from request_outcome_rows[OF nb db_up_world0 res]
  have "map req_status (requests (snd (payload_inspection_middleware cfg_plain post_benign req_hello world0))) =
     [''success'']" by (simp add: w)
  with nb db_up_world0 r show ?thesis by simp
qed

text \<open>
  C4 as stated fails when the analysis service is unreachable: the request is
  inspected and answered with the 503, and no Request Outcome row is written.
\<close>

theorem no_outcome_row_on_503_counterexample:
  "\<not> bypassed (path req_hello) \<and>
   fst (payload_inspection_middleware cfg_plain post_down req_hello world0) =
     Inr (JSONResponse 503 [(''detail'', ''Service Unavailable: Analysis service is down.'')]) \<and>
   requests (snd (payload_inspection_middleware cfg_plain post_down req_hello world0)) = []"
  by code_simp

text \<open>A request blocked by two regex rules gets two rows.\<close>

lemma two_regex_rules_two_outcome_rows:
  "map req_status
     (requests (snd (payload_inspection_middleware cfg_two post_down req_two_regex world0))) =
     [''error'', ''error'']"
  by code_simp

text \<open>
  C10, as amended. For a request that reaches the semantic stage and gets a 2xx response
  whose body parses to a JSON object: when the \<^verbatim>\<open>verdict\<close> field is absent or is anything but the
  string \<^verbatim>\<open>malicious\<close>, the request goes on to the application, the one statement sent
  to the database is the request-outcome insert with status \<^verbatim>\<open>success\<close> (the row is in
  the table when the database accepts it) and no incident is written; when the field is
  the string \<^verbatim>\<open>malicious\<close>, the response is the 403 of the RAG analysis.
\<close>

theorem rag_verdict_decides:
  assumes nb: "\<not> bypassed (path req)"
    and none: "\<forall>x \<in> set (OWASP_RULES cfg). \<not> fires (snd x) (payload_of req)"
    and noregex: "check_regex_rules (REGEX_RULES cfg) (payload_of req) = []"
    and url: "RAG_SERVICE_URL cfg \<noteq> []"
    and reply: "post (RAG_SERVICE_URL cfg) (payload_of req) = Response status (Some (Dict rag_data))"
    and ok: "is_success status"
  shows "(rag_data ''verdict'' \<noteq> Some (JStr ''malicious'') \<longrightarrow>
            fst (payload_inspection_middleware cfg post req w) = Inr CallNext \<and>
            executed (snd (payload_inspection_middleware cfg post req w)) =
              executed w @ [InsertRequest ''success'' (JStr (client_ip_of req))] \<and>
            incidents (snd (payload_inspection_middleware cfg post req w)) = incidents w \<and>
            (\<not> next_fails w \<longrightarrow>
               requests (snd (payload_inspection_middleware cfg post req w)) =
                 requests w @ [\<lparr>req_id = Suc (request_seq w), req_status = ''success'',
                                 client_ip = Some (client_ip_of req)\<rparr>])) \<and>
         (rag_data ''verdict'' = Some (JStr ''malicious'') \<longrightarrow>
            fst (payload_inspection_middleware cfg post req w) =
              Inr (JSONResponse 403
                     [(''detail'', ''Blocked by RAG analysis: RAG: '' @
                         py_str (dict_get rag_data ''detected_pattern''
                                   (JStr ''Unknown Pattern'')))]))"
proof -
  from none have fm: "first_match (OWASP_RULES cfg) (payload_of req) = None"
    unfolding first_match_None .
  from middleware_unmatched[OF nb fm noregex, of w post] url obtain w0 where
    w0: "only_logged w w0"
      "payload_inspection_middleware cfg post req w =
         rag_stage (RAG_SERVICE_URL cfg) post (payload_of req) (client_ip_of req) w0"
    by auto
  have nf: "next_fails (posted (RAG_SERVICE_URL cfg) (payload_of req) w0) = next_fails w"
    by (simp add: posted_next_fails only_logged_next_fails[OF w0(1)])
  show ?thesis
  proof (intro conjI impI)
    assume v: "rag_data ''verdict'' \<noteq> Some (JStr ''malicious'')"
    have eq: "payload_inspection_middleware cfg post req w =
        safe_request (client_ip_of req) (posted (RAG_SERVICE_URL cfg) (payload_of req) w0)"
      unfolding w0(2) rag_stage_eq using reply ok v by simp
    show "fst (payload_inspection_middleware cfg post req w) = Inr CallNext"
      by (simp add: eq safe_request_def)
    show "executed (snd (payload_inspection_middleware cfg post req w)) =
              executed w @ [InsertRequest ''success'' (JStr (client_ip_of req))]"
      by (simp add: eq safe_request_def log_request_fields posted_fields
          only_logged_fields[OF w0(1)])
    show "incidents (snd (payload_inspection_middleware cfg post req w)) = incidents w"
      by (simp add: eq safe_request_def log_request_fields posted_fields
          only_logged_fields[OF w0(1)])
    show "requests (snd (payload_inspection_middleware cfg post req w)) =
                 requests w @ [\<lparr>req_id = Suc (request_seq w), req_status = ''success'',
                                 client_ip = Some (client_ip_of req)\<rparr>]" if "\<not> next_fails w"
      using that
      by (simp add: eq safe_request_def log_request_requests nf posted_fields
          only_logged_fields[OF w0(1)])
  next
    assume v: "rag_data ''verdict'' = Some (JStr ''malicious'')"
    show "fst (payload_inspection_middleware cfg post req w) =
              Inr (JSONResponse 403
                     [(''detail'', ''Blocked by RAG analysis: RAG: '' @
                         py_str (dict_get rag_data ''detected_pattern''
                                   (JStr ''Unknown Pattern'')))])"
      unfolding w0(2) rag_stage_eq using reply ok v by simp
  qed
qed

theorem rag_verdict_decides_witness:
  "\<not> bypassed (path req_hello) \<and>
   first_match (OWASP_RULES cfg_plain) (payload_of req_hello) = None \<and>
   check_regex_rules (REGEX_RULES cfg_plain) (payload_of req_hello) = [] \<and>
   RAG_SERVICE_URL cfg_plain \<noteq> [] \<and>
   post_suspicious (RAG_SERVICE_URL cfg_plain) (payload_of req_hello) =
     Response 200 (Some (Dict [''verdict'' \<mapsto> JStr ''suspicious''])) \<and>
   is_success 200 \<and>
   fst (payload_inspection_middleware cfg_plain post_suspicious req_hello world0) = Inr CallNext \<and>
   map req_status
     (requests (snd (payload_inspection_middleware cfg_plain post_suspicious req_hello world0))) =
     [''success'']"
proof -
  have nb: "\<not> bypassed (path req_hello)" by code_simp
  have fm: "first_match (OWASP_RULES cfg_plain) (payload_of req_hello) = None"
    by (simp add: cfg_plain_def first_match_Nil)
  have none: "\<forall>x \<in> set (OWASP_RULES cfg_plain). \<not> fires (snd x) (payload_of req_hello)"
    by (simp add: cfg_plain_def)
  have noregex: "check_regex_rules (REGEX_RULES cfg_plain) (payload_of req_hello) = []"
    by (simp add: cfg_plain_def check_regex_rules_def)
  have url: "RAG_SERVICE_URL cfg_plain \<noteq> []" by (simp add: cfg_plain_def)
  have reply: "post_suspicious (RAG_SERVICE_URL cfg_plain) (payload_of req_hello) =
     Response 200 (Some (Dict [''verdict'' \<mapsto> JStr ''suspicious'']))"
    by (simp add: post_suspicious_def)
  have ok: "is_success 200" by (simp add: is_success_def)
  have v: "[''verdict'' \<mapsto> JStr ''suspicious''] ''verdict'' \<noteq> Some (JStr ''malicious'')"
    by simp
  have w: "\<not> next_fails world0" "requests world0 = []"
    by (simp_all add: next_fails_def world0_def)
  note m = rag_verdict_decides[where req = req_hello and cfg = cfg_plain
      and post = post_suspicious and status = 200
      and rag_data = "[''verdict'' \<mapsto> JStr ''suspicious'']" and w = world0,
      OF nb none noregex url reply ok]
  from m v have r: "fst (payload_inspection_middleware cfg_plain post_suspicious req_hello world0) =
      Inr CallNext" by blast
  from m v w(1) have "requests (snd (payload_inspection_middleware cfg_plain post_suspicious req_hello world0)) =
      requests world0 @ [\<lparr>req_id = Suc (request_seq world0), req_status = ''success'',
                                 client_ip = Some (client_ip_of req_hello)\<rparr>]" by blast
  then have "map req_status
     (requests (snd (payload_inspection_middleware cfg_plain post_suspicious req_hello world0))) =
     [''success'']" by (simp add: w)
  with nb fm noregex url reply ok r show ?thesis by simp
qed

text \<open>
  C10 as stated fails for a 2xx response whose body is JSON but not an object (a list,
  \<^verbatim>\<open>null\<close>): it has no \<^verbatim>\<open>verdict\<close> field, \<^verbatim>\<open>rag_data.get\<close> raises, the request is not
  allowed and no success outcome is recorded.
\<close>

theorem rag_non_object_body_counterexample:
  "is_success 200 \<and>
   post_list (RAG_SERVICE_URL cfg_plain) (payload_of req_hello) = Response 200 (Some NotDict) \<and>
   fst (payload_inspection_middleware cfg_plain post_list req_hello world0) = Inl AttributeError \<and>
   requests (snd (payload_inspection_middleware cfg_plain post_list req_hello world0)) = []"
proof -
  have 1: "is_success 200" by (simp add: is_success_def)
  have 2: "post_list (RAG_SERVICE_URL cfg_plain) (payload_of req_hello) = Response 200 (Some NotDict)"
    by (simp add: post_list_def)
  have 3: "fst (payload_inspection_middleware cfg_plain post_list req_hello world0) =
      Inl AttributeError"
    by code_simp
  have 4: "requests (snd (payload_inspection_middleware cfg_plain post_list req_hello world0)) = []"
    by code_simp
  from 1 2 3 4 show ?thesis by simp
qed

text \<open>
  A transport error (\<^verbatim>\<open>httpx.RequestError\<close>) is answered with the 503 response; nothing
  is sent to the database and the incidents table is untouched.
\<close>

lemma rag_unreachable_fail_closed:
  assumes nb: "\<not> bypassed (path req)"
    and none: "\<forall>x \<in> set (OWASP_RULES cfg). \<not> fires (snd x) (payload_of req)"
    and noregex: "check_regex_rules (REGEX_RULES cfg) (payload_of req) = []"
    and url: "RAG_SERVICE_URL cfg \<noteq> []"
    and reply: "post (RAG_SERVICE_URL cfg) (payload_of req) = RequestError"
  shows "fst (payload_inspection_middleware cfg post req w) =
           Inr (JSONResponse 503
                  [(''detail'', ''Service Unavailable: Analysis service is down.'')]) \<and>
         executed (snd (payload_inspection_middleware cfg post req w)) = executed w \<and>
         incidents (snd (payload_inspection_middleware cfg post req w)) = incidents w"
proof -
  from none have fm: "first_match (OWASP_RULES cfg) (payload_of req) = None"
    unfolding first_match_None .
  from middleware_unmatched[OF nb fm noregex, of w post] url obtain w0 where
    w0: "only_logged w w0"
      "payload_inspection_middleware cfg post req w =
         rag_stage (RAG_SERVICE_URL cfg) post (payload_of req) (client_ip_of req) w0"
    by auto
  show ?thesis
    unfolding w0(2) rag_stage_eq using reply
    by (simp add: logging_fields posted_fields only_logged_fields[OF w0(1)])
qed

text \<open>
  C2, the code at the failing inputs. A response with status 500 makes
  \<^verbatim>\<open>raise_for_status()\<close> raise \<^verbatim>\<open>HTTPStatusError\<close>, and a 200 response whose body is not
  JSON makes \<^verbatim>\<open>response.json()\<close> raise: neither is an \<^verbatim>\<open>httpx.RequestError\<close>, so the
  exception leaves the middleware and no 503 response is returned.
\<close>

theorem rag_bad_response_raises:
  "fst (payload_inspection_middleware cfg_plain post_500 req_hello world0) = Inl HTTPStatusError \<and>
   fst (payload_inspection_middleware cfg_plain post_not_json req_hello world0) = Inl JSONDecodeError"
  by code_simp

subsection \<open>Rule names of the incidents\<close>

lemma named_logging: "named (logging l m w) = named w"
  by (simp add: named_def logging_fields)

lemma named_only_logged: "only_logged w w' \<Longrightarrow> named w' = named w"
  by (simp add: named_def only_logged_fields)

lemma named_posted: "named (posted u p w) = named w"
  by (simp add: named_def posted_fields)

lemma named_log_request: "named (log_request s ip w) = named w"
  by (simp add: named_def log_request_fields)

lemma named_log_incident_any:
  "named w \<Longrightarrow> r \<noteq> [] \<Longrightarrow> named (log_incident ip p (JStr r) w)"
  by (simp add: named_def log_incident_incidents_any non_empty_def)

lemma named_log_incident:
  "named w \<Longrightarrow> r \<noteq> [] \<Longrightarrow> named (log_incident (JStr ip) (JStr p) (JStr r) w)"
  by (rule named_log_incident_any)

lemma named_log_incidents:
  "named w \<Longrightarrow> \<forall>r \<in> set rs. r \<noteq> [] \<Longrightarrow> named (log_incidents ip p rs w)"
  by (induction rs arbitrary: w)
     (simp_all add: log_incidents_Nil log_incidents_Cons named_log_incident)

lemma named_log_suricata_alert: "named (log_suricata_alert t a b c d w) = named w"
  by (simp add: named_def log_suricata_alert_eq logging_fields execute_InsertSuricata)

lemma named_rag_stage: "named w \<Longrightarrow> named (snd (rag_stage url post payload ip w))"
  by (simp add: rag_stage_eq safe_request_def named_logging named_posted named_log_request
      named_log_incident split: http_reply.splits option.splits json.splits)

lemma named_middleware:
  assumes n: "named w"
    and o: "\<forall>x \<in> set (OWASP_RULES cfg). fst x \<noteq> []"
    and g: "\<forall>x \<in> set (REGEX_RULES cfg). fst x \<noteq> []"
  shows "named (snd (payload_inspection_middleware cfg post req w))"
proof (cases "bypassed (path req)")
  case True
  with n show ?thesis by (simp add: payload_inspection_middleware_def)
next
  case nb: False
  show ?thesis
  proof (cases "first_match (OWASP_RULES cfg) (payload_of req)")
    case (Some name)
    from first_match_Some[OF Some] obtain pre r rest where
      "OWASP_RULES cfg = pre @ (name, r) # rest" by blast
    then have "(name, r) \<in> set (OWASP_RULES cfg)" by simp
    with o have ne: "name \<noteq> []" by fastforce
    from middleware_signature[OF nb Some, of w post] obtain w0 where
      w0: "only_logged w w0"
        "payload_inspection_middleware cfg post req w =
           (Inr (JSONResponse 403 [(''detail'', ''Blocked by OWASP rule: '' @ name)]),
            log_incident (JStr (client_ip_of req)) (JStr (payload_of req)) (JStr name) w0)" by blast
    from n have "named w0" by (simp add: named_only_logged[OF w0(1)])
    then show ?thesis by (simp add: w0(2) named_log_incident ne)
  next
    case None
    let ?t = "check_regex_rules (REGEX_RULES cfg) (payload_of req)"
    show ?thesis
    proof (cases "?t = []")
      case False
      from middleware_regex[OF nb None False, of w post] obtain w0 where
        w0: "only_logged w w0"
          "payload_inspection_middleware cfg post req w =
             (Inr (JSONResponse 403
                [(''detail'', ''Blocked by Regex rule(s): '' @ py_join '', '' ?t)]),
              log_incidents (client_ip_of req) (payload_of req) ?t w0)" by blast
      have "set ?t \<subseteq> fst ` set (REGEX_RULES cfg)"
        by (auto simp: check_regex_rules_def)
      have ne: "\<forall>r \<in> set ?t. r \<noteq> []"
      proof
        fix r assume "r \<in> set ?t"
        with \<open>set ?t \<subseteq> fst ` set (REGEX_RULES cfg)\<close>
        obtain x where "x \<in> set (REGEX_RULES cfg)" "r = fst x" by blast
        with g show "r \<noteq> []" by simp
      qed
      from n have "named w0" by (simp add: named_only_logged[OF w0(1)])
      then show ?thesis by (simp add: w0(2) named_log_incidents ne)
    next
      case True
      from middleware_unmatched[OF nb None True, of w post] obtain w0 where
        w0: "only_logged w w0"
          "payload_inspection_middleware cfg post req w =
             (if RAG_SERVICE_URL cfg \<noteq> []
              then rag_stage (RAG_SERVICE_URL cfg) post (payload_of req) (client_ip_of req) w0
              else safe_request (client_ip_of req) w0)" by blast
      from n have "named w0" by (simp add: named_only_logged[OF w0(1)])
      then show ?thesis
        by (simp add: w0(2) named_rag_stage safe_request_def named_log_request)
    qed
  qed
qed

lemma named_add_incident:
  assumes n: "named w"
    and r: "\<forall>data. parsed = Some (Dict data) \<longrightarrow>
              data ''rule'' = None \<or> (\<exists>s. data ''rule'' = Some (JStr s) \<and> s \<noteq> [])"
  shows "named (snd (add_incident cfg key parsed now w))"
proof (cases "\<exists>data. parsed = Some (Dict data)")
  case False
  with n show ?thesis
    by (cases parsed)
       (auto simp: add_incident_def error_500_def named_logging
          split: sum.splits option.splits json.splits)
next
  case True
  then obtain data where d: "parsed = Some (Dict data)" by blast
  with r have "data ''rule'' = None \<or> (\<exists>s. data ''rule'' = Some (JStr s) \<and> s \<noteq> [])"
    by simp
  then obtain s where s: "dict_get data ''rule'' (JStr ''Unknown'') = JStr s" "s \<noteq> []"
    by (auto simp: dict_get_def)
  from n s(2) have "named (log_incident (dict_get data ''ip'' (JStr ''unknown''))
      (dict_get data ''payload'' (JStr [])) (JStr s) w)"
    by (rule named_log_incident_any)
  with n d s(1) show ?thesis
    by (simp add: add_incident_def Let_def named_log_suricata_alert split: sum.splits)
qed

lemma add_incident_row:
  assumes k: "key = ADMIN_KEY cfg"
    and nr: "\<not> raises (InsertIncident (dict_get data ''ip'' (JStr ''unknown''))
                 (dict_get data ''payload'' (JStr []))
                 (dict_get data ''rule'' (JStr ''Unknown''))) w"
  shows "incidents (snd (add_incident cfg key (Some (Dict data)) now w)) =
           incidents w @
             [\<lparr>inc_id = Suc (incident_seq w),
               inc_ip = the (to_cell (dict_get data ''ip'' (JStr ''unknown''))),
               inc_payload = the (to_cell (dict_get data ''payload'' (JStr []))),
               rule_triggered = the (to_cell (dict_get data ''rule'' (JStr ''Unknown''))),
               inc_status = None\<rparr>]"
proof -
  let ?w1 = "log_incident (dict_get data ''ip'' (JStr ''unknown''))
               (dict_get data ''payload'' (JStr []))
               (dict_get data ''rule'' (JStr ''Unknown'')) w"
  have "incidents (snd (add_incident cfg key (Some (Dict data)) now w)) = incidents ?w1"
    using k
    by (simp add: add_incident_def admin_auth_def Let_def error_500_def logging_fields
        log_suricata_alert_eq execute_InsertSuricata split: jval.splits)
  with nr show ?thesis by (simp add: log_incident_incidents_any)
qed

text \<open>
  C7, as amended. Starting from a table in which every incident has a non-empty
  \<^verbatim>\<open>rule_triggered\<close>: if no configured signature or regex rule has the empty name, the
  same holds after the middleware has run (on the semantic path the name starts with
  \<^verbatim>\<open>RAG: \<close>); and it holds after the intake endpoint has run provided the body's \<^verbatim>\<open>rule\<close>
  field is absent or a non-empty string. With the right key and the insert accepted,
  the intake endpoint adds one incident whose \<^verbatim>\<open>rule_triggered\<close> is the body's \<^verbatim>\<open>rule\<close>
  field as the database stores it (\<^verbatim>\<open>Unknown\<close> when the field is absent, the empty
  string when it is the empty string, \<^verbatim>\<open>NULL\<close> when it is \<^verbatim>\<open>null\<close>).
\<close>

theorem incidents_name_a_rule:
  assumes n: "named w"
    and o: "\<forall>x \<in> set (OWASP_RULES cfg). fst x \<noteq> []"
    and g: "\<forall>x \<in> set (REGEX_RULES cfg). fst x \<noteq> []"
  shows "named (snd (payload_inspection_middleware cfg post req w)) \<and>
         ((\<forall>data. parsed = Some (Dict data) \<longrightarrow>
             data ''rule'' = None \<or> (\<exists>s. data ''rule'' = Some (JStr s) \<and> s \<noteq> [])) \<longrightarrow>
            named (snd (add_incident cfg key parsed now w))) \<and>
         (key = ADMIN_KEY cfg \<longrightarrow>
          \<not> raises (InsertIncident (dict_get data ''ip'' (JStr ''unknown''))
                 (dict_get data ''payload'' (JStr []))
                 (dict_get data ''rule'' (JStr ''Unknown''))) w \<longrightarrow>
          incidents (snd (add_incident cfg key (Some (Dict data)) now w)) =
            incidents w @
              [\<lparr>inc_id = Suc (incident_seq w),
                inc_ip = the (to_cell (dict_get data ''ip'' (JStr ''unknown''))),
                inc_payload = the (to_cell (dict_get data ''payload'' (JStr []))),
                rule_triggered = the (to_cell (dict_get data ''rule'' (JStr ''Unknown''))),
                inc_status = None\<rparr>])"
  using named_middleware[OF n o g] named_add_incident[OF n] add_incident_row by blast

theorem incidents_name_a_rule_witness:
  "named world0 \<and>
   map fst (OWASP_RULES cfg_two) = [''SQLInjection'', ''Tautology''] \<and>
   map fst (REGEX_RULES cfg_two) = [''script_tag'', ''dot_dot_slash''] \<and>
   named (snd (payload_inspection_middleware cfg_two post_down req_sqli world0)) \<and>
   named (snd (add_incident cfg_two ''supersecretadminkey''
                 (Some (Dict [''ip'' \<mapsto> JStr ''10.0.0.1'', ''payload'' \<mapsto> JStr ''x''])) 0 world0)) \<and>
   map rule_triggered
     (incidents (snd (add_incident cfg_two ''supersecretadminkey''
                 (Some (Dict [''ip'' \<mapsto> JStr ''10.0.0.1'', ''payload'' \<mapsto> JStr ''x''])) 0 world0))) =
     [Some ''Unknown'']"
proof -
  let ?d = "[''ip'' \<mapsto> JStr ''10.0.0.1'', ''payload'' \<mapsto> JStr ''x'']"
  have n: "named world0" by (simp add: named_def world0_def)
  have o: "\<forall>x \<in> set (OWASP_RULES cfg_two). fst x \<noteq> []" by (simp add: cfg_two_def)
  have g: "\<forall>x \<in> set (REGEX_RULES cfg_two). fst x \<noteq> []" by (simp add: cfg_two_def)
  have d: "\<forall>data. Some (Dict ?d) = Some (Dict data) \<longrightarrow>
      data ''rule'' = None \<or> (\<exists>s. data ''rule'' = Some (JStr s) \<and> s \<noteq> [])" by auto
  have k: "''supersecretadminkey'' = ADMIN_KEY cfg_two" by (simp add: cfg_two_def)
  have nr: "\<not> raises (InsertIncident (dict_get ?d ''ip'' (JStr ''unknown''))
                 (dict_get ?d ''payload'' (JStr []))
                 (dict_get ?d ''rule'' (JStr ''Unknown''))) world0"
    by (simp add: raises_def next_fails_def world0_def dict_get_def)
  note m = incidents_name_a_rule[OF n o g, where post = post_down and req = req_sqli
      and parsed = "Some (Dict ?d)" and key = "''supersecretadminkey''" and now = 0 and data = ?d]
  from m d have a: "named (snd (payload_inspection_middleware cfg_two post_down req_sqli world0)) \<and>
   named (snd (add_incident cfg_two ''supersecretadminkey'' (Some (Dict ?d)) 0 world0))"
    by blast
  from m k nr have "incidents (snd (add_incident cfg_two ''supersecretadminkey'' (Some (Dict ?d)) 0 world0)) =
            incidents world0 @
              [\<lparr>inc_id = Suc (incident_seq world0),
                inc_ip = the (to_cell (dict_get ?d ''ip'' (JStr ''unknown''))),
                inc_payload = the (to_cell (dict_get ?d ''payload'' (JStr []))),
                rule_triggered = the (to_cell (dict_get ?d ''rule'' (JStr ''Unknown''))),
                inc_status = None\<rparr>]" by blast
  then have r: "map rule_triggered
     (incidents (snd (add_incident cfg_two ''supersecretadminkey'' (Some (Dict ?d)) 0 world0))) =
     [Some ''Unknown'']"
    by (simp add: world0_def dict_get_def)
  from n a r show ?thesis by (simp add: cfg_two_def)
qed

text \<open>
  C7 as stated fails at the intake endpoint: a body whose \<^verbatim>\<open>rule\<close> field is the empty
  string, sent with the right key, is answered with 200 and leaves an incident whose
  \<^verbatim>\<open>rule_triggered\<close> is empty.
\<close>

theorem intake_empty_rule_counterexample:
  "fst (add_incident cfg_plain ''supersecretadminkey''
          (Some (Dict [''ip'' \<mapsto> JStr ''10.0.0.1'', ''payload'' \<mapsto> JStr ''x'',
                       ''rule'' \<mapsto> JStr []])) 0 world0) =
     Inr (JSONResponse 200 [(''status'', ''success''),
                            (''message'', ''Incident logged successfully'')]) \<and>
   map rule_triggered
     (incidents (snd (add_incident cfg_plain ''supersecretadminkey''
          (Some (Dict [''ip'' \<mapsto> JStr ''10.0.0.1'', ''payload'' \<mapsto> JStr ''x'',
                       ''rule'' \<mapsto> JStr []])) 0 world0))) =
     [Some []]"
  by code_simp

text \<open>
  A body whose \<^verbatim>\<open>rule\<close> field is \<^verbatim>\<open>null\<close>: the incident is inserted with
  \<^verbatim>\<open>rule_triggered\<close> \<^verbatim>\<open>NULL\<close>, then \<^verbatim>\<open>rule.upper()\<close> raises inside \<^verbatim>\<open>log_incident\<close> (no
  request outcome is written) and \<^verbatim>\<open>rule.startswith\<close> raises in the endpoint, which
  answers 500.
\<close>

lemma intake_null_rule:
  "fst (add_incident cfg_plain ''supersecretadminkey''
          (Some (Dict [''ip'' \<mapsto> JStr ''10.0.0.1'', ''payload'' \<mapsto> JStr ''x'',
                       ''rule'' \<mapsto> JNull])) 0 world0) =
     Inr (JSONResponse 500 [(''status'', ''error'')]) \<and>
   map rule_triggered
     (incidents (snd (add_incident cfg_plain ''supersecretadminkey''
          (Some (Dict [''ip'' \<mapsto> JStr ''10.0.0.1'', ''payload'' \<mapsto> JStr ''x'',
                       ''rule'' \<mapsto> JNull])) 0 world0))) =
     [None] \<and>
   requests (snd (add_incident cfg_plain ''supersecretadminkey''
          (Some (Dict [''ip'' \<mapsto> JStr ''10.0.0.1'', ''payload'' \<mapsto> JStr ''x'',
                       ''rule'' \<mapsto> JNull])) 0 world0)) = []"
  by code_simp

subsection \<open>The location of the analysis service\<close>

lemma middleware_no_location:
  assumes "RAG_SERVICE_URL cfg = []"
  shows "rag_posts (snd (payload_inspection_middleware cfg post req w)) = rag_posts w"
proof (cases "bypassed (path req)")
  case True
  then show ?thesis by (simp add: payload_inspection_middleware_def)
next
  case nb: False
  show ?thesis
  proof (cases "first_match (OWASP_RULES cfg) (payload_of req)")
    case (Some name)
    from middleware_signature[OF nb Some, of w post] obtain w0 where
      w0: "only_logged w w0"
        "payload_inspection_middleware cfg post req w =
           (Inr (JSONResponse 403 [(''detail'', ''Blocked by OWASP rule: '' @ name)]),
            log_incident (JStr (client_ip_of req)) (JStr (payload_of req)) (JStr name) w0)" by blast
    show ?thesis by (simp add: w0(2) log_incident_rag_posts only_logged_fields[OF w0(1)])
  next
    case None
    let ?t = "check_regex_rules (REGEX_RULES cfg) (payload_of req)"
    show ?thesis
    proof (cases "?t = []")
      case False
      from middleware_regex[OF nb None False, of w post] obtain w0 where
        w0: "only_logged w w0"
          "payload_inspection_middleware cfg post req w =
             (Inr (JSONResponse 403
                [(''detail'', ''Blocked by Regex rule(s): '' @ py_join '', '' ?t)]),
              log_incidents (client_ip_of req) (payload_of req) ?t w0)" by blast
      show ?thesis by (simp add: w0(2) log_incidents_rag_posts only_logged_fields[OF w0(1)])
    next
      case True
      from middleware_unmatched[OF nb None True, of w post] obtain w0 where
        w0: "only_logged w w0"
          "payload_inspection_middleware cfg post req w =
             (if RAG_SERVICE_URL cfg \<noteq> []
              then rag_stage (RAG_SERVICE_URL cfg) post (payload_of req) (client_ip_of req) w0
              else safe_request (client_ip_of req) w0)" by blast
      show ?thesis
        using assms
        by (simp add: w0(2) safe_request_def log_request_fields only_logged_fields[OF w0(1)])
    qed
  qed
qed

text \<open>
  C8, as amended. When \<^verbatim>\<open>RAG_SERVICE_URL\<close> is set to the empty string, no request is
  posted to the analysis service. When the variable is absent, the location is the
  default written in the source.
\<close>

theorem empty_location_skips_semantic_stage:
  assumes "load_config env owasp regex = Inr cfg"
  shows "(env ''RAG_SERVICE_URL'' = Some [] \<longrightarrow>
            rag_posts (snd (payload_inspection_middleware cfg post req w)) = rag_posts w) \<and>
         (env ''RAG_SERVICE_URL'' = None \<longrightarrow>
            RAG_SERVICE_URL cfg = ''http://rag-service:8000/analyze-payload'')"
proof (intro conjI impI)
  assume "env ''RAG_SERVICE_URL'' = Some []"
  with assms have "RAG_SERVICE_URL cfg = []"
    by (auto simp: load_config_def getenv_def split: option.splits if_splits)
  then show "rag_posts (snd (payload_inspection_middleware cfg post req w)) = rag_posts w"
    by (rule middleware_no_location)
next
  assume "env ''RAG_SERVICE_URL'' = None"
  with assms show "RAG_SERVICE_URL cfg = ''http://rag-service:8000/analyze-payload''"
    by (auto simp: load_config_def getenv_def split: option.splits if_splits)
qed

theorem empty_location_skips_semantic_stage_witness:
  "load_config env_empty_rag [] [] = Inr (cfg_plain\<lparr>RAG_SERVICE_URL := []\<rparr>) \<and>
   env_empty_rag ''RAG_SERVICE_URL'' = Some [] \<and>
   rag_posts (snd (payload_inspection_middleware (cfg_plain\<lparr>RAG_SERVICE_URL := []\<rparr>)
                     post_benign req_hello world0)) = rag_posts world0"
proof -
  have l: "load_config env_empty_rag [] [] = Inr (cfg_plain\<lparr>RAG_SERVICE_URL := []\<rparr>)"
    by (simp add: load_config_def env_empty_rag_def cfg_plain_def getenv_def)
  have e: "env_empty_rag ''RAG_SERVICE_URL'' = Some []"
    by (simp add: env_empty_rag_def)
  from empty_location_skips_semantic_stage[OF l, of post_benign req_hello world0] e
  have "rag_posts (snd (payload_inspection_middleware (cfg_plain\<lparr>RAG_SERVICE_URL := []\<rparr>)
                     post_benign req_hello world0)) = rag_posts world0" by blast
  with l e show ?thesis by simp
qed

text \<open>
  C8 as stated fails: with \<^verbatim>\<open>RAG_SERVICE_URL\<close> absent from the environment the
  configuration holds the default location, and a payload that matches no rule is
  posted to it.
\<close>

theorem absent_location_counterexample:
  "env_no_rag ''RAG_SERVICE_URL'' = None \<and>
   load_config env_no_rag [] [] = Inr cfg_plain \<and>
   rag_posts (snd (payload_inspection_middleware cfg_plain post_benign req_hello world0)) =
     [(''http://rag-service:8000/analyze-payload'', ''hello world'')]"
proof -
  have "rag_posts (snd (payload_inspection_middleware cfg_plain post_benign req_hello world0)) =
     [(''http://rag-service:8000/analyze-payload'', ''hello world'')]"
    by code_simp
  then show ?thesis
    by (simp add: load_config_def env_no_rag_def cfg_plain_def getenv_def)
qed

text \<open>
  Containment in the upper-cased ASCII text is containment whatever the case of the
  letters: some part of the text upper-cases to the keyword.
\<close>

lemma py_in_ascii_upper:
  "py_in k (ascii_upper r) \<longleftrightarrow> (\<exists>sub. py_in sub r \<and> ascii_upper sub = k)"
proof
  assume "py_in k (ascii_upper r)"
  then obtain a b where "map upper_char r = a @ k @ b"
    unfolding py_in_iff ascii_upper_def by blast
  then obtain us vs where 1: "r = us @ vs" "a = map upper_char us" "k @ b = map upper_char vs"
    unfolding map_eq_append_conv by blast
  from 1(3) obtain s t where 2: "vs = s @ t" "k = map upper_char s" "b = map upper_char t"
    unfolding append_eq_map_conv by blast
  from 1(1) 2(1) have "r = us @ s @ t" by simp
  then have "py_in s r" unfolding py_in_iff by blast
  with 2(2) show "\<exists>sub. py_in sub r \<and> ascii_upper sub = k"
    unfolding ascii_upper_def by blast
next
  assume "\<exists>sub. py_in sub r \<and> ascii_upper sub = k"
  then obtain sub a b where "r = a @ sub @ b" "ascii_upper sub = k"
    unfolding py_in_iff by blast
  then have "ascii_upper r = ascii_upper a @ k @ ascii_upper b"
    by (simp add: ascii_upper_def)
  then show "py_in k (ascii_upper r)" unfolding py_in_iff by blast
qed

end
